theory Spec2Isabelle
  imports Main "HOL-Library.Word" "HOL-Library.AList"
begin

section \<open>Python data: decoded JSON, exceptions, strings\<close>

text \<open>
  A decoded JSON document as Python holds it: \<open>None\<close>, \<open>bool\<close>, \<open>int\<close>, \<open>str\<close>,
  \<open>list\<close> and \<open>dict\<close> (keys are strings; the association list keeps insertion order
  and the first binding of a key is the one looked up). Numbers with a fraction are not
  represented.
\<close>

datatype json =
    JNull
  | JBool bool
  | JInt int
  | JStr string
  | JList "json list"
  | JDict "(string \<times> json) list"

text \<open>
  Modelled from the spec: the module \<open>exceptions\<close>, which the client imports and which
  is not among the sources. Its five classes are the kinds of the spec's error taxonomy,
  flat under the common base \<open>GhostError\<close>, which is raised itself for the generic API
  error; so a handler for \<open>GhostNotFoundError\<close> catches that kind only. The other
  constructors are the exceptions of the libraries that can travel through the client:
  \<open>ClientError\<close> stands for \<open>aiohttp.ClientError\<close> and all its subclasses and carries
  \<open>str(err)\<close>; \<open>InvalidKeyError\<close> is the one \<open>jwt.encode\<close> raises for a key it
  refuses; the rest are Python built-ins (\<open>TimeoutError\<close> is also what a timed-out
  exchange raises). All of them are subclasses of \<open>Exception\<close>; none of the built-ins
  and neither \<open>InvalidKeyError\<close> is an \<open>aiohttp.ClientError\<close> or a \<open>GhostError\<close>.
\<close>

datatype exn =
    GhostError string
  | GhostAuthError string
  | GhostNotFoundError string
  | GhostValidationError json
  | GhostConnectionError string
  | ClientError string
  | ValueError string
  | JSONDecodeError
  | IndexError
  | KeyError
  | AttributeError
  | TypeError
  | OverflowError
  | UnicodeDecodeError
  | TimeoutError
  | InvalidKeyError

text \<open>Sequencing of calls that may raise: the first exception ends the computation.\<close>

primrec then_do :: "exn + 'a \<Rightarrow> ('a \<Rightarrow> exn + 'b) \<Rightarrow> exn + 'b" where
  "then_do (Inl err) f = Inl err"
| "then_do (Inr x) f = f x"

text \<open>\<open>d.get(key, default)\<close>: only a \<open>dict\<close> has the method.\<close>

definition py_get :: "json \<Rightarrow> string \<Rightarrow> json \<Rightarrow> exn + json" where
  "py_get d k dflt =
     (case d of
        JDict kvs \<Rightarrow> (case map_of kvs k of None \<Rightarrow> Inr dflt | Some v \<Rightarrow> Inr v)
      | _ \<Rightarrow> Inl AttributeError)"

text \<open>Truth of an object in \<open>if x\<close>.\<close>

definition truthy :: "json \<Rightarrow> bool" where
  "truthy x =
     (case x of
        JNull \<Rightarrow> False
      | JBool b \<Rightarrow> b
      | JInt i \<Rightarrow> i \<noteq> 0
      | JStr s \<Rightarrow> s \<noteq> []
      | JList xs \<Rightarrow> xs \<noteq> []
      | JDict kvs \<Rightarrow> kvs \<noteq> [])"

definition opt_truthy :: "json option \<Rightarrow> bool" where
  "opt_truthy x = (case x of None \<Rightarrow> False | Some v \<Rightarrow> truthy v)"

text \<open>\<open>x[i]\<close> for an integer \<open>i\<close>: sequences count negative indices from the end and
  raise \<open>IndexError\<close> out of range; a decoded \<open>dict\<close> has no integer key; the other
  objects are not subscriptable.\<close>

definition seq_index :: "'a list \<Rightarrow> int \<Rightarrow> exn + 'a" where
  "seq_index xs i =
     (if 0 \<le> i \<and> i < int (length xs) then Inr (xs ! nat i)
      else if i < 0 \<and> - i \<le> int (length xs) then Inr (xs ! nat (int (length xs) + i))
      else Inl IndexError)"

definition py_index :: "json \<Rightarrow> int \<Rightarrow> exn + json" where
  "py_index x i =
     (case x of
        JList xs \<Rightarrow> seq_index xs i
      | JStr s \<Rightarrow> then_do (seq_index s i) (\<lambda>c. Inr (JStr [c]))
      | JDict kvs \<Rightarrow> Inl KeyError
      | _ \<Rightarrow> Inl TypeError)"

text \<open>The elements a \<open>for\<close> loop visits.\<close>

definition py_iter :: "json \<Rightarrow> exn + json list" where
  "py_iter x =
     (case x of
        JList xs \<Rightarrow> Inr xs
      | JStr s \<Rightarrow> Inr (map (\<lambda>c. JStr [c]) s)
      | JDict kvs \<Rightarrow> Inr (map (\<lambda>kv. JStr (fst kv)) kvs)
      | _ \<Rightarrow> Inl TypeError)"

text \<open>A \<open>dict\<close> built by the client with decoded objects as keys: lists and dicts are
  unhashable, and \<open>True == 1\<close>, \<open>False == 0\<close> as keys. An assignment to a key that is
  present keeps the key object and its position.\<close>

definition hashable :: "json \<Rightarrow> bool" where
  "hashable k = (case k of JList xs \<Rightarrow> False | JDict kvs \<Rightarrow> False | _ \<Rightarrow> True)"

definition key_norm :: "json \<Rightarrow> json" where
  "key_norm k = (case k of JBool b \<Rightarrow> JInt (if b then 1 else 0) | _ \<Rightarrow> k)"

definition key_eq :: "json \<Rightarrow> json \<Rightarrow> bool" where
  "key_eq a b = (key_norm a = key_norm b)"

fun dict_update :: "(json \<times> json) list \<Rightarrow> json \<Rightarrow> json \<Rightarrow> (json \<times> json) list" where
  "dict_update [] k v = [(k, v)]"
| "dict_update ((k', v') # kvs) k v =
     (if key_eq k' k then (k', v) # kvs else (k', v') # dict_update kvs k v)"

definition dict_setitem :: "(json \<times> json) list \<Rightarrow> json \<Rightarrow> json \<Rightarrow> exn + (json \<times> json) list" where
  "dict_setitem d k v = (if hashable k then Inr (dict_update d k v) else Inl TypeError)"

fun dict_lookup :: "(json \<times> json) list \<Rightarrow> json \<Rightarrow> json option" where
  "dict_lookup [] k = None"
| "dict_lookup ((k', v') # kvs) k = (if key_eq k' k then Some v' else dict_lookup kvs k)"

text \<open>\<open>str(n)\<close> for an integer.\<close>

fun str_nat :: "nat \<Rightarrow> string" where
  "str_nat n =
     (if n < 10 then [char_of (48 + n)] else str_nat (n div 10) @ [char_of (48 + n mod 10)])"

definition str_int :: "int \<Rightarrow> string" where
  "str_int i = (if i < 0 then CHR ''-'' # str_nat (nat (- i)) else str_nat (nat i))"

section \<open>The world outside the client\<close>

text \<open>
  What one HTTP exchange hands to the transport, and what comes back: the call raises, or
  a response arrives with its status and with the outcomes of reading its body as text
  with \<open>response.text()\<close> (which raises when the bytes are not valid in the body's
  charset) and of decoding it with \<open>response.json()\<close> (which raises when the body is
  not JSON).
\<close>

record http_request =
  req_method :: string
  req_url :: string
  req_headers :: "(string \<times> string) list"
  req_params :: "json option"
  req_json :: "json option"

record response =
  status :: int
  body_text :: "exn + string"
  body_json :: "exn + json"

datatype http_outcome = Raises exn | Responds response

text \<open>
  The environment of a call: the remote side as a function of the request, the clock
  (\<open>datetime.now(UTC)\<close>, in microseconds since the Unix epoch), and the two library
  calls whose results are opaque strings: \<open>jwt.encode(payload, key, algorithm=...,
  headers=...)\<close>, which returns the token or raises, and \<open>json.dumps\<close>.
\<close>

record world =
  server :: "http_request \<Rightarrow> http_outcome"
  now :: int
  jwt_encode ::
    "(string \<times> json) list \<Rightarrow> 8 word list \<Rightarrow> string \<Rightarrow> (string \<times> string) list \<Rightarrow> exn + string"
  json_dumps :: "json \<Rightarrow> string"

text \<open>\<open>str.startswith\<close>, \<open>str.rstrip(chars)\<close> for a one-character set, and
  \<open>str.split(sep)\<close> for a one-character separator.\<close>

definition startswith :: "string \<Rightarrow> string \<Rightarrow> bool" where
  "startswith s p = (take (length p) s = p)"

definition rstrip :: "char \<Rightarrow> string \<Rightarrow> string" where
  "rstrip ch s = rev (dropWhile (\<lambda>c. c = ch) (rev s))"

fun str_split :: "char \<Rightarrow> string \<Rightarrow> string list" where
  "str_split sep [] = [[]]"
| "str_split sep (c # cs) =
     (if c = sep then [] # str_split sep cs
      else (case str_split sep cs of
              [] \<Rightarrow> [[c]]
            | p # ps \<Rightarrow> (c # p) # ps))"

text \<open>\<open>bytes.fromhex\<close>: ASCII whitespace is skipped before each byte, then two
  hexadecimal digits are read; anything else raises \<open>ValueError\<close>.\<close>

definition isspace :: "char \<Rightarrow> bool" where
  "isspace c = (c \<in> set [CHR '' '', CHR 0x09, CHR 0x0A, CHR 0x0B, CHR 0x0C, CHR 0x0D])"

definition hexdigit :: "char \<Rightarrow> nat option" where
  "hexdigit c =
     (let n = of_char c :: nat in
      if 48 \<le> n \<and> n \<le> 57 then Some (n - 48)
      else if 97 \<le> n \<and> n \<le> 102 then Some (n - 87)
      else if 65 \<le> n \<and> n \<le> 70 then Some (n - 55)
      else None)"

fun fromhex :: "string \<Rightarrow> exn + 8 word list" where
  "fromhex [] = Inr []"
| "fromhex [c] =
     (if isspace c then Inr []
      else Inl (ValueError ''non-hexadecimal number found in fromhex() arg''))"
| "fromhex (c # d # cs) =
     (if isspace c then fromhex (d # cs)
      else (case hexdigit c of
              None \<Rightarrow> Inl (ValueError ''non-hexadecimal number found in fromhex() arg'')
            | Some hi \<Rightarrow>
                (case hexdigit d of
                   None \<Rightarrow> Inl (ValueError ''non-hexadecimal number found in fromhex() arg'')
                 | Some lo \<Rightarrow>
                     (case fromhex cs of
                        Inl err \<Rightarrow> Inl err
                      | Inr bs \<Rightarrow> Inr (of_nat (16 * hi + lo) # bs)))))"

text \<open>
  The strings \<open>bytes.fromhex\<close> is documented to accept: two hexadecimal digits per
  byte, with ASCII whitespace allowed before and after each byte.
\<close>

inductive hex_bytes :: "string \<Rightarrow> bool" where
  hex_bytes_empty: "hex_bytes []"
| hex_bytes_space: "isspace c \<Longrightarrow> hex_bytes s \<Longrightarrow> hex_bytes (c # s)"
| hex_bytes_byte:
    "hexdigit c \<noteq> None \<Longrightarrow> hexdigit d \<noteq> None \<Longrightarrow> hex_bytes s \<Longrightarrow> hex_bytes (c # d # s)"

code_pred hex_bytes .

section \<open>The client\<close>

text \<open>
  Sessions are objects shared between the client and its caller, so they live in a store:
  a session is an index into the list of \<open>closed\<close> flags of all sessions created so far.
  A reference outside the store cannot arise; it reads as closed.
\<close>

type_synonym session = nat
type_synonym sessions = "bool list"

record client =
  api_url :: string
  admin_api_key :: string
  session :: "session option"
  owns_session :: bool

definition JWT_EXPIRY_MINUTES :: int where
  "JWT_EXPIRY_MINUTES = 5"

text \<open>\<open>GhostAdminAPI.__init__\<close>: a pure function of its three arguments.\<close>

definition init :: "string \<Rightarrow> string \<Rightarrow> session option \<Rightarrow> exn + client" where
  "init url key sess =
     (if \<not> startswith url ''https://'' then Inl (ValueError ''api_url must use HTTPS'')
      else Inr \<lparr> api_url = rstrip CHR ''/'' url,
                 admin_api_key = key,
                 session = sess,
                 owns_session = (sess = None) \<rparr>)"

text \<open>
  Time is the number of microseconds since the Unix epoch (the resolution of
  \<open>datetime\<close>). \<open>dt.timestamp()\<close> divides that count by \<open>10**6\<close> with Python's true
  division of integers, which gives the nearest double (53 significant bits, ties to the
  even significand), and \<open>int(...)\<close> truncates the double towards zero.
  \<open>float_div_trunc a b\<close> is \<open>int(a / b)\<close> for integers \<open>a \<ge> 0\<close>, \<open>b > 0\<close>: with
  \<open>2^e \<le> a / b < 2^(e+1)\<close> the double is \<open>m * 2^(e-52)\<close> for the rounded significand
  \<open>m\<close>; below 1 the double is truncated to 0 unless it rounds up to 1.
\<close>

fun bit_length :: "nat \<Rightarrow> nat" where
  "bit_length n = (if n = 0 then 0 else Suc (bit_length (n div 2)))"

declare bit_length.simps [simp del]

definition round_half_even_div :: "nat \<Rightarrow> nat \<Rightarrow> nat" where
  "round_half_even_div a b =
     (if 2 * (a mod b) < b then a div b
      else if b < 2 * (a mod b) then a div b + 1
      else if even (a div b) then a div b
      else a div b + 1)"

definition float_div_trunc :: "nat \<Rightarrow> nat \<Rightarrow> nat" where
  "float_div_trunc a b =
     (if a < b then (if (2 ^ 54 - 1) * b \<le> a * 2 ^ 54 then 1 else 0)
      else if bit_length (a div b) - 1 \<le> 52
      then round_half_even_div (a * 2 ^ (52 - (bit_length (a div b) - 1))) b
             div 2 ^ (52 - (bit_length (a div b) - 1))
      else round_half_even_div a (b * 2 ^ (bit_length (a div b) - 1 - 52))
             * 2 ^ (bit_length (a div b) - 1 - 52))"

definition timestamp_int :: "int \<Rightarrow> int" where
  "timestamp_int t =
     (if 0 \<le> t then int (float_div_trunc (nat t) 1000000)
      else - int (float_div_trunc (nat (- t)) 1000000))"

definition timedelta_minutes :: "int \<Rightarrow> int" where
  "timedelta_minutes m = m * 60 * 1000000"

text \<open>\<open>datetime.max\<close>, 9999-12-31 23:59:59.999999 UTC: a sum beyond it raises
  \<open>OverflowError\<close>.\<close>

definition DATETIME_MAX :: int where
  "DATETIME_MAX = 253402300799999999"

text \<open>The dictionary \<open>payload\<close> of \<open>_generate_token\<close>, for the clock reading \<open>t\<close>.\<close>

definition token_payload :: "int \<Rightarrow> exn + (string \<times> json) list" where
  "token_payload t =
     (if DATETIME_MAX < t + timedelta_minutes JWT_EXPIRY_MINUTES then Inl OverflowError
      else Inr [(''iat'', JInt (timestamp_int t)),
                (''exp'', JInt (timestamp_int (t + timedelta_minutes JWT_EXPIRY_MINUTES))),
                (''aud'', JStr ''/admin/'')])"

definition generate_token :: "world \<Rightarrow> client \<Rightarrow> exn + string" where
  "generate_token W self =
     (case str_split CHR '':'' (admin_api_key self) of
        [key_id, secret] \<Rightarrow>
          (case fromhex secret of
             Inl err \<Rightarrow> Inl (GhostAuthError ''Invalid API key secret. Expected hex string.'')
           | Inr secret_bytes \<Rightarrow>
               then_do (token_payload (now W)) (\<lambda>payload.
                 jwt_encode W payload secret_bytes ''HS256''
                   [(''alg'', ''HS256''), (''kid'', key_id), (''typ'', ''JWT'')]))
      | _ \<Rightarrow>
          Inl (GhostAuthError
                 (''Invalid API key format. Expected '' @ [CHR 0x27] @ ''id:secret'' @ [CHR 0x27])))"

text \<open>\<open>_get_session\<close>: a missing or closed session is replaced by a new one, which the
  client then owns.\<close>

definition session_closed :: "sessions \<Rightarrow> session \<Rightarrow> bool" where
  "session_closed ss s = (if s < length ss then ss ! s else True)"

definition get_session :: "client \<Rightarrow> sessions \<Rightarrow> session \<times> client \<times> sessions" where
  "get_session self ss =
     (case session self of
        None \<Rightarrow> (length ss, self\<lparr>session := Some (length ss), owns_session := True\<rparr>, ss @ [False])
      | Some s \<Rightarrow>
          if session_closed ss s
          then (length ss, self\<lparr>session := Some (length ss), owns_session := True\<rparr>, ss @ [False])
          else (s, self, ss))"

text \<open>\<open>close\<close>, \<open>__aenter__\<close>, \<open>__aexit__(*args)\<close>.\<close>

definition close :: "client \<Rightarrow> sessions \<Rightarrow> sessions" where
  "close self ss =
     (case session self of
        None \<Rightarrow> ss
      | Some s \<Rightarrow> if owns_session self \<and> \<not> session_closed ss s then ss[s := True] else ss)"

definition aenter :: "client \<Rightarrow> client" where
  "aenter self = self"

definition aexit :: "client \<Rightarrow> exn option \<Rightarrow> sessions \<Rightarrow> sessions" where
  "aexit self args ss = close self ss"

text \<open>
  The statement \<open>async with client as api: body\<close>: the body runs on what \<open>__aenter__\<close>
  returned; \<open>__aexit__\<close> is then awaited with the exception the body raised, if any, and
  since it returns \<open>None\<close> that exception is raised again.
\<close>

definition async_with ::
  "client \<Rightarrow> sessions \<Rightarrow> (client \<Rightarrow> sessions \<Rightarrow> (exn + 'a) \<times> client \<times> sessions) \<Rightarrow>
   (exn + 'a) \<times> client \<times> sessions" where
  "async_with self ss body =
     (case body (aenter self) ss of
        (r, api, ss1) \<Rightarrow>
          (r, api, aexit api (case r of Inl err \<Rightarrow> Some err | Inr x \<Rightarrow> None) ss1))"

definition get_auth_headers :: "world \<Rightarrow> client \<Rightarrow> exn + (string \<times> string) list" where
  "get_auth_headers W self =
     then_do (generate_token W self) (\<lambda>token.
       Inr [(''Authorization'', ''Ghost '' @ token), (''Accept-Version'', ''v5.0'')])"

text \<open>The handlers \<open>except aiohttp.ClientError as err\<close> of \<open>_request\<close> and
  \<open>except GhostNotFoundError\<close> of the post methods.\<close>

fun except_client_error :: "exn + 'a \<Rightarrow> exn + 'a" where
  "except_client_error (Inl (ClientError msg)) =
     Inl (GhostConnectionError (''Connection failed: '' @ msg))"
| "except_client_error r = r"


text \<open>\<open>_request\<close>. The result comes with the client and the store as the call leaves
  them.\<close>

definition request ::
  "world \<Rightarrow> client \<Rightarrow> sessions \<Rightarrow> string \<Rightarrow> string \<Rightarrow> json option \<Rightarrow> json option \<Rightarrow>
   (exn + json) \<times> client \<times> sessions" where
  "request W self ss meth endpoint params jsn =
     (case get_session self ss of
        (sess, self1, ss1) \<Rightarrow>
          (case get_auth_headers W self1 of
             Inl err \<Rightarrow> (Inl err, self1, ss1)
           | Inr headers \<Rightarrow>
               (except_client_error
                  (case server W \<lparr> req_method = meth,
                                    req_url = api_url self1 @ endpoint,
                                    req_headers =
                                      (if opt_truthy jsn
                                       then headers @ [(''Content-Type'', ''application/json'')]
                                       else headers),
                                    req_params = params,
                                    req_json = jsn \<rparr> of
                     Raises err \<Rightarrow> Inl err
                   | Responds resp \<Rightarrow>
                       if status resp = 401
                       then Inl (GhostAuthError ''Authentication failed. Check your API key.'')
                       else if status resp = 404
                       then Inl (GhostNotFoundError (''Resource not found: '' @ endpoint))
                       else if status resp = 422
                       then then_do (body_json resp) (\<lambda>data.
                            then_do (py_get data ''errors'' (JList [JDict []])) (\<lambda>errors.
                            then_do (py_index errors 0) (\<lambda>first.
                            then_do (py_get first ''message'' (JStr ''Validation failed'')) (\<lambda>message.
                              Inl (GhostValidationError message)))))
                       else if status resp \<ge> 400
                       then then_do (body_text resp) (\<lambda>raw.
                              Inl (GhostError (''API error '' @ str_int (status resp) @ '': '' @ raw)))
                       else body_json resp),
                self1, ss1)))"

definition get ::
  "world \<Rightarrow> client \<Rightarrow> sessions \<Rightarrow> string \<Rightarrow> json option \<Rightarrow> (exn + json) \<times> client \<times> sessions" where
  "get W self ss endpoint params = request W self ss ''GET'' endpoint params None"

definition post ::
  "world \<Rightarrow> client \<Rightarrow> sessions \<Rightarrow> string \<Rightarrow> json option \<Rightarrow> (exn + json) \<times> client \<times> sessions" where
  "post W self ss endpoint jsn = request W self ss ''POST'' endpoint None jsn"



section \<open>Resource methods\<close>








text \<open>\<open>get_mrr\<close>: the loop over \<open>data.get("data", [])\<close>, then the method.\<close>

fun mrr_loop :: "json list \<Rightarrow> (json \<times> json) list \<Rightarrow> exn + (json \<times> json) list" where
  "mrr_loop [] result = Inr result"
| "mrr_loop (currency_data # rest) result =
     then_do (py_get currency_data ''currency'' (JStr ''usd'')) (\<lambda>currency.
     then_do (py_get currency_data ''data'' (JList [])) (\<lambda>vals.
       if truthy vals
       then then_do (py_index vals (- 1)) (\<lambda>latest.
            then_do (py_get latest ''value'' (JInt 0)) (\<lambda>v.
            then_do (dict_setitem result currency v) (\<lambda>result1.
              mrr_loop rest result1)))
       else mrr_loop rest result))"

definition get_mrr ::
  "world \<Rightarrow> client \<Rightarrow> sessions \<Rightarrow> (exn + (json \<times> json) list) \<times> client \<times> sessions" where
  "get_mrr W self ss =
     (case get W self ss ''/ghost/api/admin/members/stats/mrr/'' None of
        (r, self1, ss1) \<Rightarrow>
          (then_do r (\<lambda>data.
           then_do (py_get data ''data'' (JList [])) (\<lambda>series.
           then_do (py_iter series) (\<lambda>items. mrr_loop items []))),
           self1, ss1))"

text \<open>\<open>get_activitypub_stats\<close>: \<open>response.ok\<close>, the inner \<open>fetch_count\<close> with its
  \<open>except Exception\<close>, and the method. The two fetches write different keys of
  \<open>stats\<close>; they are run here one after the other.\<close>

definition ok :: "response \<Rightarrow> bool" where
  "ok resp = (400 > status resp)"

definition fetch_count ::
  "world \<Rightarrow> client \<Rightarrow> (string \<times> string) list \<Rightarrow> (string \<times> json) list \<Rightarrow> string \<Rightarrow> string \<Rightarrow>
   (string \<times> json) list" where
  "fetch_count W self headers stats endpoint key =
     (case (case server W \<lparr> req_method = ''GET'',
                             req_url = api_url self @ ''/.ghost/activitypub/'' @ endpoint @ ''/index'',
                             req_headers = headers,
                             req_params = None,
                             req_json = None \<rparr> of
              Raises err \<Rightarrow> Inl err
            | Responds resp \<Rightarrow>
                if ok resp
                then then_do (body_json resp) (\<lambda>data.
                     then_do (py_get data ''totalItems'' (JInt 0)) (\<lambda>n.
                       Inr (AList.update key n stats)))
                else Inr stats) of
        Inl err \<Rightarrow> stats
      | Inr stats1 \<Rightarrow> stats1)"

definition get_activitypub_stats ::
  "world \<Rightarrow> client \<Rightarrow> sessions \<Rightarrow> (exn + (string \<times> json) list) \<times> client \<times> sessions" where
  "get_activitypub_stats W self ss =
     (case get_session self ss of
        (sess, self1, ss1) \<Rightarrow>
          (let headers = [(''Accept'', ''application/activity+json'')];
               stats = [(''followers'', JInt 0), (''following'', JInt 0)];
               stats1 = fetch_count W self1 headers stats ''followers'' ''followers'';
               stats2 = fetch_count W self1 headers stats1 ''following'' ''following''
           in (Inr stats2, self1, ss1)))"

definition create_webhook ::
  "world \<Rightarrow> client \<Rightarrow> sessions \<Rightarrow> string \<Rightarrow> string \<Rightarrow> (exn + json) \<times> client \<times> sessions" where
  "create_webhook W self ss event target_url =
     (case post W self ss ''/ghost/api/admin/webhooks/''
             (Some (JDict [(''webhooks'',
                JList [JDict [(''event'', JStr event), (''target_url'', JStr target_url)]])])) of
        (r, self1, ss1) \<Rightarrow>
          (then_do r (\<lambda>data.
           then_do (py_get data ''webhooks'' (JList [JDict []])) (\<lambda>webhooks.
             py_index webhooks 0)),
           self1, ss1))"

text \<open>
  The shape of an entry of an MRR response on which the loop of \<open>get_mrr\<close> does not
  raise: an object whose currency is hashable and whose series is empty (or otherwise
  false) or a list ending in an object.
\<close>

definition mrr_entry_ok :: "json \<Rightarrow> bool" where
  "mrr_entry_ok e =
     (case e of
        JDict kvs \<Rightarrow>
          hashable (case map_of kvs ''currency'' of None \<Rightarrow> JStr ''usd'' | Some c \<Rightarrow> c)
          \<and> (case map_of kvs ''data'' of
                None \<Rightarrow> True
              | Some vals \<Rightarrow>
                  (case vals of
                     JList xs \<Rightarrow> xs = [] \<or> (case last xs of JDict d \<Rightarrow> True | _ \<Rightarrow> False)
                   | _ \<Rightarrow> \<not> truthy vals))
      | _ \<Rightarrow> False)"

section \<open>Sequences of session calls\<close>

text \<open>The calls through which a client touches its session, and a run of them from a
  client and a store.\<close>

datatype client_call = Call_get_session | Call_close | Call_aexit "exn option"

fun run_calls :: "client_call list \<Rightarrow> client \<times> sessions \<Rightarrow> client \<times> sessions" where
  "run_calls [] st = st"
| "run_calls (Call_get_session # calls) (self, ss) =
     (case get_session self ss of (sess, self1, ss1) \<Rightarrow> run_calls calls (self1, ss1))"
| "run_calls (Call_close # calls) (self, ss) = run_calls calls (self, close self ss)"
| "run_calls (Call_aexit args # calls) (self, ss) = run_calls calls (self, aexit self args ss)"

section \<open>Concrete inputs\<close>

text \<open>A client with a well-formed credential, and the world in which every exchange has
  the given outcome, for the examples below.\<close>

definition example_client :: client where
  "example_client =
     \<lparr> api_url = ''https://test.ghost.io'', admin_api_key = ''abc123:0a1b2c'',
       session = None, owns_session = True \<rparr>"

definition example_world :: "http_outcome \<Rightarrow> world" where
  "example_world out =
     \<lparr> server = (\<lambda>rq. out), now = 1700000000123456,
       jwt_encode = (\<lambda>payload k alg headers. Inr ''header.claims.signature''),
       json_dumps = (\<lambda>j. ''{}'') \<rparr>"

text \<open>The world whose exchanges depend on the URL requested only.\<close>

definition example_world_by_url :: "(string \<Rightarrow> http_outcome) \<Rightarrow> world" where
  "example_world_by_url f =
     \<lparr> server = (\<lambda>rq. f (req_url rq)), now = 1700000000123456,
       jwt_encode = (\<lambda>payload k alg headers. Inr ''header.claims.signature''),
       json_dumps = (\<lambda>j. ''{}'') \<rparr>"

text \<open>The body text \<open>{"errors": []}\<close>.\<close>

definition errors_empty_text :: string where
  "errors_empty_text = [CHR ''{'', CHR 0x22] @ ''errors'' @ [CHR 0x22] @ '': []}''"

section \<open>Facts about the string helpers\<close>

lemma str_split_nonempty: "str_split sep s \<noteq> []"
  by (induction s) (auto split: list.splits)

lemma length_str_split: "length (str_split sep s) = Suc (count_list s sep)"
  by (induction s) (auto split: list.splits simp: str_split_nonempty)

lemma rstrip_idem: "rstrip ch (rstrip ch s) = rstrip ch s"
  by (simp add: rstrip_def)

lemma rstrip_last: "rstrip ch s = [] \<or> last (rstrip ch s) \<noteq> ch"
proof (cases "dropWhile (\<lambda>c. c = ch) (rev s)")
  case Nil
  then show ?thesis by (simp add: rstrip_def)
next
  case (Cons a list)
  then have "a \<noteq> ch" by (simp add: dropWhile_eq_Cons_conv)
  with Cons show ?thesis by (simp add: rstrip_def)
qed

lemma rstrip_suffix: "\<exists>n. s = rstrip ch s @ replicate n ch"
proof -
  let ?t = "takeWhile (\<lambda>c. c = ch) (rev s)"
  let ?d = "dropWhile (\<lambda>c. c = ch) (rev s)"
  have "\<forall>y\<in>set (rev ?t). y = ch"
    by (auto dest: set_takeWhileD)
  then have r: "replicate (length (rev ?t)) ch = rev ?t"
    by (rule replicate_length_same)
  have "rev (?t @ ?d) = rev ?d @ rev ?t"
    by (rule rev_append)
  then have "s = rev ?d @ rev ?t"
    by simp
  with r have "s = rstrip ch s @ replicate (length (rev ?t)) ch"
    by (simp add: rstrip_def)
  then show ?thesis ..
qed

section \<open>Construction\<close>

text \<open>
  C5. A base URL that does not start with \<open>https://\<close> makes the constructor raise
  \<open>ValueError\<close>. For every accepted URL the client stores the URL with its trailing
  slashes stripped: the stored URL is a fixed point of the stripping, does not end in a
  slash, and differs from the argument only by the slashes removed at the end. The
  constructor is a function of its three arguments alone: it is given neither the remote
  side nor the session store, so it performs no exchange and creates no session.
\<close>

theorem init_https_rstrip:
  "(\<not> startswith url ''https://'' \<longrightarrow> init url key sess = Inl (ValueError ''api_url must use HTTPS''))
   \<and> (startswith url ''https://'' \<longrightarrow>
        init url key sess =
          Inr \<lparr> api_url = rstrip CHR ''/'' url, admin_api_key = key, session = sess,
                owns_session = (sess = None) \<rparr>
        \<and> rstrip CHR ''/'' (rstrip CHR ''/'' url) = rstrip CHR ''/'' url
        \<and> (rstrip CHR ''/'' url = [] \<or> last (rstrip CHR ''/'' url) \<noteq> CHR ''/'')
        \<and> (\<exists>n. url = rstrip CHR ''/'' url @ replicate n CHR ''/''))"
  using rstrip_last[of "CHR ''/''" url] rstrip_suffix[of url "CHR ''/''"]
  by (simp add: init_def rstrip_idem)

theorem init_https_rstrip_witness:
  "init ''http://test.ghost.io'' ''id:00'' None = Inl (ValueError ''api_url must use HTTPS'')
   \<and> init ''https://test.ghost.io/'' ''id:00'' None =
       Inr \<lparr> api_url = ''https://test.ghost.io'', admin_api_key = ''id:00'', session = None,
             owns_session = True \<rparr>"
  using init_https_rstrip[of "''http://test.ghost.io''" "''id:00''" None]
        init_https_rstrip[of "''https://test.ghost.io/''" "''id:00''" None]
  by (simp add: startswith_def rstrip_def)

section \<open>Token generation\<close>

lemma str_split_no_sep: "sep \<notin> set s \<Longrightarrow> str_split sep s = [s]"
  by (induction s) auto

lemma str_split_append: "sep \<notin> set a \<Longrightarrow> str_split sep (a @ sep # b) = a # str_split sep b"
  by (induction a) auto

lemma str_split_one_sep:
  "sep \<notin> set a \<Longrightarrow> sep \<notin> set b \<Longrightarrow> str_split sep (a @ sep # b) = [a, b]"
  by (simp add: str_split_append str_split_no_sep)

lemma str_split_two_iff: "(\<exists>a b. str_split sep s = [a, b]) \<longleftrightarrow> count_list s sep = 1"
proof -
  have "(\<exists>a b. str_split sep s = [a, b]) \<longleftrightarrow> length (str_split sep s) = 2"
    by (auto simp: length_Suc_conv numeral_2_eq_2)
  then show ?thesis by (simp add: length_str_split)
qed

lemma fromhex_rejects:
  "c \<in> set s \<Longrightarrow> hexdigit c = None \<Longrightarrow> \<not> isspace c \<Longrightarrow> \<exists>m. fromhex s = Inl (ValueError m)"
proof (induction s rule: fromhex.induct)
  case 1
  then show ?case by simp
next
  case (2 c')
  then show ?case by auto
next
  case (3 c' d cs)
  show ?case
  proof (cases "isspace c'")
    case True
    with "3.prems" have "c \<in> set (d # cs)" by auto
    with True "3.IH"(1) "3.prems" show ?thesis by simp
  next
    case False
    show ?thesis
    proof (cases "hexdigit c'")
      case None
      with False show ?thesis by simp
    next
      case hi: (Some hi)
      show ?thesis
      proof (cases "hexdigit d")
        case None
        with False hi show ?thesis by simp
      next
        case lo: (Some lo)
        with hi "3.prems" have "c \<in> set cs" by auto
        with "3.IH"(2)[OF False hi lo] "3.prems" obtain m where "fromhex cs = Inl (ValueError m)"
          by blast
        with False hi lo show ?thesis by simp
      qed
    qed
  qed
qed

lemma fromhex_error: "fromhex s = Inl e \<Longrightarrow> \<exists>m. e = ValueError m"
  by (induction s arbitrary: e rule: fromhex.induct) (auto split: option.splits sum.splits if_splits)

lemma hexdigit_space: "isspace c \<Longrightarrow> hexdigit c = None"
  by (auto simp: isspace_def hexdigit_def)

lemma hex_bytes_fromhex: "hex_bytes s \<Longrightarrow> \<exists>bs. fromhex s = Inr bs"
proof (induction rule: hex_bytes.induct)
  case hex_bytes_empty
  then show ?case by simp
next
  case (hex_bytes_space c s)
  then show ?case by (cases s) auto
next
  case (hex_bytes_byte c d s)
  then have "\<not> isspace c" using hexdigit_space by auto
  with hex_bytes_byte show ?case by auto
qed

lemma fromhex_hex_bytes: "fromhex s = Inr bs \<Longrightarrow> hex_bytes s"
proof (induction s arbitrary: bs rule: fromhex.induct)
  case 1
  show ?case by (rule hex_bytes_empty)
next
  case (2 c)
  then have "isspace c" by (simp split: if_splits)
  then show ?case by (intro hex_bytes_space hex_bytes_empty)
next
  case (3 c d cs)
  show ?case
  proof (cases "isspace c")
    case True
    with "3.prems" have "fromhex (d # cs) = Inr bs" by simp
    from True "3.IH"(1)[OF True this] show ?thesis by (rule hex_bytes_space)
  next
    case False
    with "3.prems" obtain hi lo bs' where
      h: "hexdigit c = Some hi" "hexdigit d = Some lo" "fromhex cs = Inr bs'"
      by (auto split: option.splits sum.splits)
    from "3.IH"(2)[OF False h] h(1,2) show ?thesis by (intro hex_bytes_byte) simp_all
  qed
qed

lemma fromhex_accepts_iff: "(\<exists>bs. fromhex s = Inr bs) \<longleftrightarrow> hex_bytes s"
  using hex_bytes_fromhex fromhex_hex_bytes by blast

lemma fromhex_rejects_iff: "(\<exists>err. fromhex s = Inl err) \<longleftrightarrow> \<not> hex_bytes s"
  using fromhex_accepts_iff[of s] by (cases "fromhex s") auto

lemma bit_length_0: "bit_length 0 = 0"
  by (subst bit_length.simps) simp

lemma bit_length_pos: "n \<noteq> 0 \<Longrightarrow> bit_length n = Suc (bit_length (n div 2))"
  by (subst bit_length.simps) simp

lemma bit_length_le: "n < 2 ^ k \<Longrightarrow> bit_length n \<le> k"
proof (induction k arbitrary: n)
  case 0
  then show ?case by (simp add: bit_length_0)
next
  case (Suc k)
  show ?case
  proof (cases "n = 0")
    case True
    then show ?thesis by (simp add: bit_length_0)
  next
    case False
    from Suc.prems have "n div 2 < 2 ^ k" by simp
    from Suc.IH[OF this] False show ?thesis by (simp add: bit_length_pos)
  qed
qed

lemma round_half_even_div_bounds:
  assumes "0 < b" and "A * b \<le> N" and "2 * N + b < 2 * B * b"
  shows "A \<le> round_half_even_div N b \<and> round_half_even_div N b < B"
proof -
  let ?q = "N div b" and ?r = "N mod b"
  have n: "N = ?q * b + ?r" by simp
  have lo: "A \<le> ?q"
    using assms(1,2) by (simp add: less_eq_div_iff_mult_less_eq)
  have qn: "?q * b \<le> N" by simp
  have "(2 * ?q + 1) * b = 2 * (?q * b) + b" by (simp add: algebra_simps)
  also have "\<dots> \<le> 2 * N + b" using qn by linarith
  also have "\<dots> < (2 * B) * b" using assms(3) by simp
  finally have "(2 * ?q + 1) * b < (2 * B) * b" .
  then have "2 * ?q + 1 < 2 * B" by (metis mult_less_cancel2)
  then have hi0: "?q < B" by linarith
  have hi1: "?q + 1 < B" if "b \<le> 2 * ?r"
  proof -
    have "(2 * ?q + 2) * b = 2 * (?q * b) + b + b" by (simp add: algebra_simps)
    also have "\<dots> \<le> 2 * (?q * b) + 2 * ?r + b" using that by linarith
    also have "\<dots> = 2 * N + b" using n by linarith
    also have "\<dots> < (2 * B) * b" using assms(3) by simp
    finally have "(2 * ?q + 2) * b < (2 * B) * b" .
    then have "2 * ?q + 2 < 2 * B" by (metis mult_less_cancel2)
    then show ?thesis by linarith
  qed
  have "round_half_even_div N b = ?q \<or> (b \<le> 2 * ?r \<and> round_half_even_div N b = ?q + 1)"
    by (simp add: round_half_even_div_def)
  with lo hi0 hi1 show ?thesis by auto
qed



lemma float_div_trunc_exact:
  assumes "a div 1000000 < 2 ^ 34"
  shows "float_div_trunc a 1000000 = a div 1000000"
proof (cases "a < 1000000")
  case True
  then show ?thesis by (simp add: float_div_trunc_def)
next
  case False
  let ?s = "a div 1000000"
  let ?e = "bit_length ?s - 1"
  let ?P = "(2::nat) ^ (52 - ?e)"
  from bit_length_le[OF assms] have e: "?e \<le> 33" by simp
  then have "(2::nat) ^ 19 \<le> ?P" by (intro power_increasing) simp_all
  then have P: "524288 \<le> ?P" by simp
  have sa: "?s * 1000000 \<le> a" by simp
  have "a < (?s + 1) * 1000000"
    using div_less_iff_less_mult[of 1000000 a "?s + 1"] by simp
  then have as: "a + 1 \<le> (?s + 1) * 1000000" by simp
  have A: "(?s * ?P) * 1000000 \<le> a * ?P"
    using mult_le_mono1[OF sa, of ?P] by (simp add: algebra_simps)
  have "(a + 1) * ?P \<le> ((?s + 1) * 1000000) * ?P"
    using mult_le_mono1[OF as, of ?P] by simp
  then have "a * ?P + ?P \<le> ((?s + 1) * ?P) * 1000000" by (simp add: algebra_simps)
  with P have B: "2 * (a * ?P) + 1000000 < 2 * ((?s + 1) * ?P) * 1000000" by linarith
  from round_half_even_div_bounds[OF _ A B]
  have m: "?s * ?P \<le> round_half_even_div (a * ?P) 1000000"
          "round_half_even_div (a * ?P) 1000000 < (?s + 1) * ?P" by simp_all
  have "round_half_even_div (a * ?P) 1000000 div ?P = ?s"
    by (rule div_nat_eqI) (use m in \<open>simp_all add: algebra_simps\<close>)
  with False e show ?thesis by (simp add: float_div_trunc_def)
qed

lemma timestamp_int_exact:
  "0 \<le> t \<Longrightarrow> t < 17179869184000000 \<Longrightarrow> timestamp_int t = t div 1000000"
proof -
  assume t: "0 \<le> t" "t < 17179869184000000"
  then have "nat t div 1000000 < 2 ^ 34" by (simp add: div_less_iff_less_mult)
  from float_div_trunc_exact[OF this] t show ?thesis
    by (simp add: timestamp_int_def zdiv_int)
qed

lemmas timestamp_eval =
  timestamp_int_def float_div_trunc_def round_half_even_div_def bit_length.simps

lemma generate_token_one_colon:
  assumes "admin_api_key self = key_id @ '':'' @ secret"
    and "CHR '':'' \<notin> set key_id" and "CHR '':'' \<notin> set secret"
  shows "generate_token W self =
           (case fromhex secret of
              Inl err \<Rightarrow> Inl (GhostAuthError ''Invalid API key secret. Expected hex string.'')
            | Inr secret_bytes \<Rightarrow>
                then_do (token_payload (now W)) (\<lambda>payload.
                  jwt_encode W payload secret_bytes ''HS256''
                    [(''alg'', ''HS256''), (''kid'', key_id), (''typ'', ''JWT'')]))"
  using assms by (simp add: generate_token_def str_split_one_sep)

text \<open>
  C3 (as amended). A credential that does not contain exactly one colon makes token
  generation raise \<open>GhostAuthError\<close> (format message) and nothing else. A credential
  \<open>id:secret\<close> with one colon makes it raise \<open>GhostAuthError\<close> (secret message) and
  nothing else exactly when \<open>bytes.fromhex\<close> rejects the secret, that is, when the secret
  is not a sequence of two-digit hexadecimal bytes with ASCII whitespace allowed before
  and after each byte; every secret holding a character that is neither a hexadecimal
  digit nor ASCII whitespace is of that kind. A secret of the accepted form is decoded,
  and token generation goes on to the claims and \<open>jwt.encode\<close>.
\<close>

theorem generate_token_malformed:
  "(count_list (admin_api_key self) CHR '':'' \<noteq> 1 \<longrightarrow>
      generate_token W self =
        Inl (GhostAuthError (''Invalid API key format. Expected '' @ [CHR 0x27] @ ''id:secret'' @ [CHR 0x27])))
   \<and> (\<forall>key_id secret err.
        admin_api_key self = key_id @ '':'' @ secret \<and> CHR '':'' \<notin> set key_id \<and> CHR '':'' \<notin> set secret
        \<and> fromhex secret = Inl err \<longrightarrow>
        generate_token W self = Inl (GhostAuthError ''Invalid API key secret. Expected hex string.''))
   \<and> (\<forall>key_id secret.
        admin_api_key self = key_id @ '':'' @ secret \<and> CHR '':'' \<notin> set key_id \<and> CHR '':'' \<notin> set secret
        \<and> \<not> hex_bytes secret \<longrightarrow>
        generate_token W self = Inl (GhostAuthError ''Invalid API key secret. Expected hex string.''))
   \<and> (\<forall>key_id secret c.
        admin_api_key self = key_id @ '':'' @ secret \<and> CHR '':'' \<notin> set key_id \<and> CHR '':'' \<notin> set secret
        \<and> c \<in> set secret \<and> hexdigit c = None \<and> \<not> isspace c \<longrightarrow>
        generate_token W self = Inl (GhostAuthError ''Invalid API key secret. Expected hex string.''))
   \<and> (\<forall>key_id secret.
        admin_api_key self = key_id @ '':'' @ secret \<and> CHR '':'' \<notin> set key_id \<and> CHR '':'' \<notin> set secret
        \<and> hex_bytes secret \<longrightarrow>
        (\<exists>secret_bytes. fromhex secret = Inr secret_bytes
           \<and> generate_token W self =
               then_do (token_payload (now W)) (\<lambda>payload.
                 jwt_encode W payload secret_bytes ''HS256''
                   [(''alg'', ''HS256''), (''kid'', key_id), (''typ'', ''JWT'')])))"
proof (intro conjI allI impI)
  assume "count_list (admin_api_key self) CHR '':'' \<noteq> 1"
  then have "\<not> (\<exists>a b. str_split CHR '':'' (admin_api_key self) = [a, b])"
    by (simp add: str_split_two_iff)
  then show "generate_token W self =
        Inl (GhostAuthError (''Invalid API key format. Expected '' @ [CHR 0x27] @ ''id:secret'' @ [CHR 0x27]))"
    by (auto simp: generate_token_def split: list.splits)
next
  fix key_id secret err
  assume "admin_api_key self = key_id @ '':'' @ secret \<and> CHR '':'' \<notin> set key_id \<and> CHR '':'' \<notin> set secret
        \<and> fromhex secret = Inl err"
  then show "generate_token W self = Inl (GhostAuthError ''Invalid API key secret. Expected hex string.'')"
    by (simp add: generate_token_one_colon)
next
  fix key_id secret
  assume a: "admin_api_key self = key_id @ '':'' @ secret \<and> CHR '':'' \<notin> set key_id \<and> CHR '':'' \<notin> set secret
        \<and> \<not> hex_bytes secret"
  then obtain err where "fromhex secret = Inl err" using fromhex_rejects_iff by blast
  with a show "generate_token W self = Inl (GhostAuthError ''Invalid API key secret. Expected hex string.'')"
    by (simp add: generate_token_one_colon)
next
  fix key_id secret c
  assume a: "admin_api_key self = key_id @ '':'' @ secret \<and> CHR '':'' \<notin> set key_id \<and> CHR '':'' \<notin> set secret
        \<and> c \<in> set secret \<and> hexdigit c = None \<and> \<not> isspace c"
  then obtain m where "fromhex secret = Inl (ValueError m)" using fromhex_rejects by blast
  with a show "generate_token W self = Inl (GhostAuthError ''Invalid API key secret. Expected hex string.'')"
    by (simp add: generate_token_one_colon)
next
  fix key_id secret
  assume a: "admin_api_key self = key_id @ '':'' @ secret \<and> CHR '':'' \<notin> set key_id \<and> CHR '':'' \<notin> set secret
        \<and> hex_bytes secret"
  then obtain bs where "fromhex secret = Inr bs" using hex_bytes_fromhex by blast
  with a show "\<exists>secret_bytes. fromhex secret = Inr secret_bytes
           \<and> generate_token W self =
               then_do (token_payload (now W)) (\<lambda>payload.
                 jwt_encode W payload secret_bytes ''HS256''
                   [(''alg'', ''HS256''), (''kid'', key_id), (''typ'', ''JWT'')])"
    by (simp add: generate_token_one_colon)
qed

text \<open>The claim as first stated (every secret that is not valid hexadecimal is refused)
  fails: the space is no hexadecimal digit, yet the secrets \<open>0a 1b\<close> and a single space
  are decoded and a token is made.\<close>

theorem generate_token_whitespace_secret:
  "hexdigit CHR '' '' = None
   \<and> generate_token (example_world (Raises (ClientError [])))
        \<lparr> api_url = ''https://x'', admin_api_key = ''id:0a 1b'', session = None, owns_session = True \<rparr>
     = Inr ''header.claims.signature''
   \<and> generate_token (example_world (Raises (ClientError [])))
        \<lparr> api_url = ''https://x'', admin_api_key = ''id: '', session = None, owns_session = True \<rparr>
     = Inr ''header.claims.signature''"
  by (simp add: generate_token_def example_world_def isspace_def hexdigit_def token_payload_def
      DATETIME_MAX_def timedelta_minutes_def JWT_EXPIRY_MINUTES_def)

theorem generate_token_malformed_witness:
  "generate_token (example_world (Raises (ClientError []))) \<lparr> api_url = ''https://x'', admin_api_key = ''id-without-secret'', session = None, owns_session = True \<rparr>
     = Inl (GhostAuthError (''Invalid API key format. Expected '' @ [CHR 0x27] @ ''id:secret'' @ [CHR 0x27]))
   \<and> generate_token (example_world (Raises (ClientError []))) \<lparr> api_url = ''https://x'', admin_api_key = ''a:b:c'', session = None, owns_session = True \<rparr>
     = Inl (GhostAuthError (''Invalid API key format. Expected '' @ [CHR 0x27] @ ''id:secret'' @ [CHR 0x27]))
   \<and> generate_token (example_world (Raises (ClientError []))) \<lparr> api_url = ''https://x'', admin_api_key = ''id:xyz'', session = None, owns_session = True \<rparr>
     = Inl (GhostAuthError ''Invalid API key secret. Expected hex string.'')
   \<and> generate_token (example_world (Raises (ClientError []))) \<lparr> api_url = ''https://x'', admin_api_key = ''id:0a1'', session = None, owns_session = True \<rparr>
     = Inl (GhostAuthError ''Invalid API key secret. Expected hex string.'')"
  using generate_token_malformed[of "\<lparr> api_url = ''https://x'', admin_api_key = ''id-without-secret'', session = None, owns_session = True \<rparr>" "example_world (Raises (ClientError []))"]
        generate_token_malformed[of "\<lparr> api_url = ''https://x'', admin_api_key = ''a:b:c'', session = None, owns_session = True \<rparr>" "example_world (Raises (ClientError []))"]
        generate_token_malformed[of "\<lparr> api_url = ''https://x'', admin_api_key = ''id:xyz'', session = None, owns_session = True \<rparr>" "example_world (Raises (ClientError []))",
          THEN conjunct2, THEN conjunct1, rule_format, of "''id''" "''xyz''" "ValueError ''non-hexadecimal number found in fromhex() arg''"]
        generate_token_malformed[of "\<lparr> api_url = ''https://x'', admin_api_key = ''id:0a1'', session = None, owns_session = True \<rparr>" "example_world (Raises (ClientError []))",
          THEN conjunct2, THEN conjunct1, rule_format, of "''id''" "''0a1''" "ValueError ''non-hexadecimal number found in fromhex() arg''"]
  by (simp add: isspace_def hexdigit_def)

text \<open>
  C4 (as amended). For a credential \<open>id:secret\<close> with exactly one colon and a secret that
  \<open>bytes.fromhex\<close> decodes, and a clock from the Unix epoch on whose expiry lies less
  than \<open>2^34\<close> seconds after the epoch, token generation is the call of \<open>jwt.encode\<close> on
  the claims \<open>iat\<close>, \<open>exp\<close>, \<open>aud = "/admin/"\<close> with \<open>exp - iat = 300\<close> and \<open>iat\<close> the
  clock's whole seconds, the decoded secret bytes as key, algorithm \<open>HS256\<close>, and the
  header \<open>alg = HS256\<close>, \<open>kid = id\<close>, \<open>typ = JWT\<close>: it returns the token that call
  returns and raises what that call raises.
\<close>

theorem generate_token_wellformed:
  assumes "admin_api_key self = key_id @ '':'' @ secret"
    and "CHR '':'' \<notin> set key_id" and "CHR '':'' \<notin> set secret"
    and "fromhex secret = Inr secret_bytes"
    and "0 \<le> now W" and "now W + 300000000 < 17179869184000000"
  shows "\<exists>iat exp.
           generate_token W self =
             jwt_encode W
               [(''iat'', JInt iat), (''exp'', JInt exp), (''aud'', JStr ''/admin/'')]
               secret_bytes ''HS256''
               [(''alg'', ''HS256''), (''kid'', key_id), (''typ'', ''JWT'')]
           \<and> iat = now W div 1000000 \<and> exp - iat = 300"
proof -
  have d: "(now W + 300000000) div 1000000 = now W div 1000000 + 300"
    by simp
  from assms(5,6) have i: "timestamp_int (now W) = now W div 1000000"
    by (intro timestamp_int_exact) simp_all
  from assms(5,6) have e: "timestamp_int (now W + 300000000) = now W div 1000000 + 300"
    using timestamp_int_exact[of "now W + 300000000"] d by simp
  from assms(6) have p: "token_payload (now W) =
      Inr [(''iat'', JInt (now W div 1000000)), (''exp'', JInt (now W div 1000000 + 300)),
           (''aud'', JStr ''/admin/'')]"
    by (simp add: token_payload_def DATETIME_MAX_def timedelta_minutes_def JWT_EXPIRY_MINUTES_def i e)
  show ?thesis
    by (intro exI[of _ "now W div 1000000"] exI[of _ "now W div 1000000 + 300"])
       (simp add: generate_token_one_colon[OF assms(1-3)] assms(4) p)
qed

text \<open>The claim as first stated (\<open>exp - iat = 300\<close> at every clock reading, a token for
  every well-formed credential) fails: at 2514-05-30 01:51:24.999999 UTC the double of the
  expiry rounds up and \<open>exp - iat = 301\<close>; half a second before the epoch
  \<open>exp - iat = 299\<close>; and where \<open>jwt.encode\<close> refuses the key \<open>ssh-rsa AAAA\<close> of the
  credential \<open>id:7373682d7273612041414141\<close>, token generation raises
  \<open>InvalidKeyError\<close>.\<close>

theorem generate_token_expiry_off_by_one:
  "token_payload 17179869084999999 =
     Inr [(''iat'', JInt 17179869084), (''exp'', JInt 17179869385), (''aud'', JStr ''/admin/'')]
   \<and> token_payload (- 500000) =
     Inr [(''iat'', JInt 0), (''exp'', JInt 299), (''aud'', JStr ''/admin/'')]
   \<and> generate_token
        ((example_world (Raises (ClientError [])))
           \<lparr> jwt_encode := (\<lambda>payload k alg headers.
                if k = [0x73, 0x73, 0x68, 0x2d, 0x72, 0x73, 0x61, 0x20, 0x41, 0x41, 0x41, 0x41]
                then Inl InvalidKeyError else Inr ''header.claims.signature'') \<rparr>)
        \<lparr> api_url = ''https://x'', admin_api_key = ''id:7373682d7273612041414141'',
          session = None, owns_session = True \<rparr>
     = Inl InvalidKeyError"
  by (simp add: generate_token_def example_world_def isspace_def hexdigit_def token_payload_def
      DATETIME_MAX_def timedelta_minutes_def JWT_EXPIRY_MINUTES_def timestamp_eval)

theorem generate_token_wellformed_witness:
  "generate_token (example_world (Raises (ClientError [])))
        \<lparr> api_url = ''https://x'', admin_api_key = ''id:0aFf'', session = None, owns_session = True \<rparr>
     = Inr ''header.claims.signature''
   \<and> fromhex ''0aFf'' = Inr [10, 255]
   \<and> now (example_world (Raises (ClientError []))) div 1000000 = 1700000000"
  using generate_token_wellformed[of
     "\<lparr> api_url = ''https://x'', admin_api_key = ''id:0aFf'', session = None, owns_session = True \<rparr>"
     "''id''" "''0aFf''" "[10, 255]" "example_world (Raises (ClientError []))"]
  by (simp add: isspace_def hexdigit_def example_world_def)

section \<open>Session teardown\<close>

lemma close_not_owned: "\<not> owns_session self \<Longrightarrow> close self ss = ss"
  by (simp add: close_def split: option.splits)

lemma close_keeps_other:
  "session self \<noteq> Some s \<or> \<not> owns_session self \<Longrightarrow>
   length (close self ss) = length ss \<and> close self ss ! s = ss ! s"
  by (auto simp: close_def split: option.splits)

lemma get_session_keeps:
  "s < length ss \<Longrightarrow> get_session self ss = (t, self1, ss1) \<Longrightarrow>
   (session self \<noteq> Some s \<or> \<not> owns_session self) \<Longrightarrow>
   s < length ss1 \<and> ss1 ! s = ss ! s \<and> (session self1 \<noteq> Some s \<or> \<not> owns_session self1)"
  by (auto simp: get_session_def nth_append split: option.splits if_splits)

lemma run_calls_keeps:
  "s < length ss \<Longrightarrow> session self \<noteq> Some s \<or> \<not> owns_session self \<Longrightarrow>
   run_calls calls (self, ss) = (self', ss') \<Longrightarrow> s < length ss' \<and> ss' ! s = ss ! s"
proof (induction calls "(self, ss)" arbitrary: self ss rule: run_calls.induct)
  case 1
  then show ?case by simp
next
  case (2 calls self ss)
  obtain t self1 ss1 where g: "get_session self ss = (t, self1, ss1)"
    by (cases "get_session self ss") auto
  from get_session_keeps[OF "2.prems"(1) g "2.prems"(2)]
  have k: "s < length ss1" "ss1 ! s = ss ! s" "session self1 \<noteq> Some s \<or> \<not> owns_session self1"
    by auto
  from "2.prems"(3) g have "run_calls calls (self1, ss1) = (self', ss')" by simp
  from "2.hyps"[OF g[symmetric] refl k(1) k(3) this] k(2) show ?case by simp
next
  case (3 calls self ss)
  from close_keeps_other[OF "3.prems"(2), of ss] "3.prems"(1)
  have k: "s < length (close self ss)" "close self ss ! s = ss ! s" by auto
  from "3.prems"(3) have "run_calls calls (self, close self ss) = (self', ss')" by simp
  from "3.hyps"[OF k(1) "3.prems"(2) this] k(2) show ?case by simp
next
  case (4 args calls self ss)
  from close_keeps_other[OF "4.prems"(2), of ss] "4.prems"(1)
  have k: "s < length (aexit self args ss)" "aexit self args ss ! s = ss ! s"
    by (auto simp: aexit_def)
  from "4.prems"(3) have "run_calls calls (self, aexit self args ss) = (self', ss')" by simp
  from "4.hyps"[OF k(1) "4.prems"(2) this] k(2) show ?case by simp
qed

text \<open>
  C6. \<open>close\<close> closes the client's session exactly when the client owns it and it exists
  and is open, and leaves the store as it is otherwise. A session handed to the
  constructor stays as it was through every run of \<open>_get_session\<close>, \<open>close\<close> and
  \<open>__aexit__\<close> calls. \<open>__aenter__\<close> returns the client itself, \<open>__aexit__\<close> is
  \<open>close\<close> whatever its arguments, and a scoped use of the client ends with \<open>close\<close>
  whether its body returned or raised.
\<close>

theorem close_owned_open_only:
  "(\<forall>s. owns_session self \<and> session self = Some s \<and> s < length ss \<and> \<not> ss ! s \<longrightarrow>
        close self ss = ss[s := True] \<and> session_closed (close self ss) s)
   \<and> (\<not> (owns_session self \<and> (\<exists>s. session self = Some s \<and> s < length ss \<and> \<not> ss ! s)) \<longrightarrow>
        close self ss = ss)
   \<and> (\<forall>s url key c calls c' ss'.
        s < length ss \<and> init url key (Some s) = Inr c \<and> run_calls calls (c, ss) = (c', ss') \<longrightarrow>
        s < length ss' \<and> ss' ! s = ss ! s)
   \<and> aenter self = self
   \<and> (\<forall>args. aexit self args ss = close self ss)
   \<and> (\<forall>body r api ss1. body self ss = (r, api, ss1) \<longrightarrow>
        async_with self ss body = (r, api, close api ss1))"
proof (intro conjI allI impI)
  fix s
  assume "owns_session self \<and> session self = Some s \<and> s < length ss \<and> \<not> ss ! s"
  then show "close self ss = ss[s := True]" "session_closed (close self ss) s"
    by (simp_all add: close_def session_closed_def)
next
  assume "\<not> (owns_session self \<and> (\<exists>s. session self = Some s \<and> s < length ss \<and> \<not> ss ! s))"
  then show "close self ss = ss"
    by (auto simp: close_def session_closed_def split: option.splits)
next
  fix s url key c calls c' ss'
  assume a: "s < length ss \<and> init url key (Some s) = Inr c \<and> run_calls calls (c, ss) = (c', ss')"
  then have "\<not> owns_session c" by (auto simp: init_def split: if_splits)
  with a run_calls_keeps[of s ss c calls c' ss']
  show "s < length ss'" "ss' ! s = ss ! s" by auto
next
  show "aenter self = self" by (simp add: aenter_def)
next
  fix args show "aexit self args ss = close self ss" by (simp add: aexit_def)
next
  fix body :: "client \<Rightarrow> sessions \<Rightarrow> (exn + 'a) \<times> client \<times> sessions" and r api ss1
  assume "body self ss = (r, api, ss1)"
  then show "async_with self ss body = (r, api, close api ss1)"
    by (simp add: async_with_def aenter_def aexit_def)
qed

theorem close_owned_open_only_witness:
  "close \<lparr> api_url = ''https://x'', admin_api_key = ''id:00'', session = Some 0, owns_session = True \<rparr> [False]
     = [True]
   \<and> close \<lparr> api_url = ''https://x'', admin_api_key = ''id:00'', session = Some 0, owns_session = False \<rparr> [False]
     = [False]
   \<and> snd (run_calls [Call_get_session, Call_close, Call_aexit None]
           (\<lparr> api_url = ''https://x'', admin_api_key = ''id:00'', session = Some 0, owns_session = False \<rparr>,
            [False])) ! 0 = False
   \<and> async_with \<lparr> api_url = ''https://x'', admin_api_key = ''id:00'', session = Some 0, owns_session = True \<rparr>
         [False] (\<lambda>api ss. (Inl IndexError :: exn + unit, api, ss))
     = (Inl IndexError,
        \<lparr> api_url = ''https://x'', admin_api_key = ''id:00'', session = Some 0, owns_session = True \<rparr>,
        [True])"
  using close_owned_open_only[of
          "\<lparr> api_url = ''https://x'', admin_api_key = ''id:00'', session = Some 0, owns_session = True \<rparr>"
          "[False]"]
        close_owned_open_only[of
          "\<lparr> api_url = ''https://x'', admin_api_key = ''id:00'', session = Some 0, owns_session = False \<rparr>"
          "[False]"]
  by (simp add: close_def session_closed_def get_session_def aexit_def async_with_def aenter_def)

section \<open>Request execution\<close>

lemma get_session_fields:
  "get_session self ss = (t, self1, ss1) \<Longrightarrow>
   admin_api_key self1 = admin_api_key self \<and> api_url self1 = api_url self"
  by (auto simp: get_session_def split: option.splits if_splits)

lemma generate_token_key:
  "admin_api_key a = admin_api_key b \<Longrightarrow> generate_token W a = generate_token W b"
  by (simp add: generate_token_def)

lemma request_token_error:
  assumes "generate_token W self = Inl err"
  shows "fst (request W self ss meth endpoint params jsn) = Inl err"
proof -
  obtain t self1 ss1 where g: "get_session self ss = (t, self1, ss1)"
    by (cases "get_session self ss") auto
  with assms have "generate_token W self1 = Inl err"
    using get_session_fields[OF g] generate_token_key[of self1 self W] by simp
  with g show ?thesis by (simp add: request_def get_auth_headers_def)
qed

text \<open>What is sent, and what becomes of the outcome.\<close>

lemma request_sends:
  assumes "generate_token W self = Inr token"
  shows "fst (request W self ss meth endpoint params jsn) =
           except_client_error
             (case server W
                     \<lparr> req_method = meth,
                       req_url = api_url self @ endpoint,
                       req_headers =
                         [(''Authorization'', ''Ghost '' @ token), (''Accept-Version'', ''v5.0'')]
                         @ (if opt_truthy jsn then [(''Content-Type'', ''application/json'')] else []),
                       req_params = params,
                       req_json = jsn \<rparr> of
                Raises err \<Rightarrow> Inl err
              | Responds resp \<Rightarrow>
                  if status resp = 401
                  then Inl (GhostAuthError ''Authentication failed. Check your API key.'')
                  else if status resp = 404
                  then Inl (GhostNotFoundError (''Resource not found: '' @ endpoint))
                  else if status resp = 422
                  then then_do (body_json resp) (\<lambda>data.
                       then_do (py_get data ''errors'' (JList [JDict []])) (\<lambda>errors.
                       then_do (py_index errors 0) (\<lambda>first.
                       then_do (py_get first ''message'' (JStr ''Validation failed'')) (\<lambda>message.
                         Inl (GhostValidationError message)))))
                  else if status resp \<ge> 400
                  then then_do (body_text resp) (\<lambda>raw.
                         Inl (GhostError (''API error '' @ str_int (status resp) @ '': '' @ raw)))
                  else body_json resp)"
proof -
  obtain t self1 ss1 where g: "get_session self ss = (t, self1, ss1)"
    by (cases "get_session self ss") auto
  with assms have "generate_token W self1 = Inr token" "api_url self1 = api_url self"
    using get_session_fields[OF g] generate_token_key[of self1 self W] by simp_all
  with g show ?thesis by (simp add: request_def get_auth_headers_def)
qed

lemma request_outcome:
  assumes "generate_token W self = Inr token" and "\<And>rq. server W rq = out"
  shows "fst (request W self ss meth endpoint params jsn) =
           except_client_error
             (case out of
                Raises err \<Rightarrow> Inl err
              | Responds resp \<Rightarrow>
                  if status resp = 401
                  then Inl (GhostAuthError ''Authentication failed. Check your API key.'')
                  else if status resp = 404
                  then Inl (GhostNotFoundError (''Resource not found: '' @ endpoint))
                  else if status resp = 422
                  then then_do (body_json resp) (\<lambda>data.
                       then_do (py_get data ''errors'' (JList [JDict []])) (\<lambda>errors.
                       then_do (py_index errors 0) (\<lambda>first.
                       then_do (py_get first ''message'' (JStr ''Validation failed'')) (\<lambda>message.
                         Inl (GhostValidationError message)))))
                  else if status resp \<ge> 400
                  then then_do (body_text resp) (\<lambda>raw.
                         Inl (GhostError (''API error '' @ str_int (status resp) @ '': '' @ raw)))
                  else body_json resp)"
  using request_sends[OF assms(1), of ss meth endpoint params jsn] assms(2) by simp


lemma example_token: "generate_token (example_world out) example_client = Inr ''header.claims.signature''"
  by (simp add: generate_token_def example_world_def example_client_def isspace_def hexdigit_def
      token_payload_def DATETIME_MAX_def timedelta_minutes_def JWT_EXPIRY_MINUTES_def)

lemma example_server: "server (example_world out) rq = out"
  by (simp add: example_world_def)

text \<open>
  C1 (as amended). With a credential that yields a token, a response is classified by
  its status in this order: 401 raises \<open>GhostAuthError\<close>; 404 raises
  \<open>GhostNotFoundError\<close> naming the endpoint; 422 raises \<open>GhostValidationError\<close> when
  the body decodes to an object whose \<open>errors\<close> entry is absent or is a list starting with
  an object; any other status from 400 raises \<open>GhostError\<close> carrying the status and the
  body text when the body can be read as text, and otherwise what reading it raised; a
  status below 400 returns the decoded body when the body decodes, and otherwise raises
  what the decoder raised. An \<open>aiohttp.ClientError\<close> raised by the call itself, by the
  reading or by the decoding raises \<open>GhostConnectionError\<close> with the cause in its
  message; any other exception of the call, a timeout among them, leaves the request as
  it is.
\<close>

theorem request_status_classification:
  assumes "generate_token W self = Inr token" and "\<And>rq. server W rq = out"
  shows "(\<forall>resp. out = Responds resp \<longrightarrow>
            (status resp = 401 \<longrightarrow>
               fst (request W self ss meth endpoint params jsn) =
                 Inl (GhostAuthError ''Authentication failed. Check your API key.''))
          \<and> (status resp = 404 \<longrightarrow>
               fst (request W self ss meth endpoint params jsn) =
                 Inl (GhostNotFoundError (''Resource not found: '' @ endpoint)))
          \<and> (status resp = 422 \<longrightarrow>
               (\<forall>kvs. body_json resp = Inr (JDict kvs)
                  \<and> (map_of kvs ''errors'' = None
                     \<or> (\<exists>d rest. map_of kvs ''errors'' = Some (JList (JDict d # rest)))) \<longrightarrow>
                  (\<exists>m. fst (request W self ss meth endpoint params jsn) = Inl (GhostValidationError m))))
          \<and> (400 \<le> status resp \<and> status resp \<noteq> 401 \<and> status resp \<noteq> 404 \<and> status resp \<noteq> 422 \<longrightarrow>
               (\<forall>raw. body_text resp = Inr raw \<longrightarrow>
                  fst (request W self ss meth endpoint params jsn) =
                    Inl (GhostError (''API error '' @ str_int (status resp) @ '': '' @ raw)))
             \<and> (\<forall>err. body_text resp = Inl err \<longrightarrow>
                  fst (request W self ss meth endpoint params jsn) = except_client_error (Inl err)))
          \<and> (status resp < 400 \<longrightarrow>
               (\<forall>j. body_json resp = Inr j \<longrightarrow>
                  fst (request W self ss meth endpoint params jsn) = Inr j)
             \<and> (\<forall>err. body_json resp = Inl err \<longrightarrow>
                  fst (request W self ss meth endpoint params jsn) = except_client_error (Inl err))))
       \<and> (\<forall>msg. out = Raises (ClientError msg) \<longrightarrow>
            fst (request W self ss meth endpoint params jsn) =
              Inl (GhostConnectionError (''Connection failed: '' @ msg)))
       \<and> (\<forall>err. out = Raises err \<and> (\<forall>msg. err \<noteq> ClientError msg) \<longrightarrow>
            fst (request W self ss meth endpoint params jsn) = Inl err)"
proof -
  note r = request_outcome[OF assms, of ss meth endpoint params jsn]
  show ?thesis
  proof (intro conjI allI impI)
    fix resp assume "out = Responds resp" "status resp = 401"
    with r show "fst (request W self ss meth endpoint params jsn) =
        Inl (GhostAuthError ''Authentication failed. Check your API key.'')"
      by simp
  next
    fix resp assume "out = Responds resp" "status resp = 404"
    with r show "fst (request W self ss meth endpoint params jsn) =
        Inl (GhostNotFoundError (''Resource not found: '' @ endpoint))"
      by simp
  next
    fix resp kvs
    assume o: "out = Responds resp" "status resp = 422"
      and b: "body_json resp = Inr (JDict kvs)
                  \<and> (map_of kvs ''errors'' = None
                     \<or> (\<exists>d rest. map_of kvs ''errors'' = Some (JList (JDict d # rest))))"
    from b have "\<exists>m. then_do (py_get (JDict kvs) ''errors'' (JList [JDict []])) (\<lambda>errors.
                       then_do (py_index errors 0) (\<lambda>first.
                       then_do (py_get first ''message'' (JStr ''Validation failed'')) (\<lambda>message.
                         Inl (GhostValidationError message)))) = (Inl (GhostValidationError m) :: exn + json)"
      by (auto simp: py_get_def py_index_def seq_index_def split: option.splits)
    with r o b show "\<exists>m. fst (request W self ss meth endpoint params jsn) = Inl (GhostValidationError m)"
      by auto
  next
    fix resp raw
    assume "out = Responds resp"
      "400 \<le> status resp \<and> status resp \<noteq> 401 \<and> status resp \<noteq> 404 \<and> status resp \<noteq> 422"
      "body_text resp = Inr raw"
    with r show "fst (request W self ss meth endpoint params jsn) =
        Inl (GhostError (''API error '' @ str_int (status resp) @ '': '' @ raw))"
      by simp
  next
    fix resp err
    assume "out = Responds resp"
      "400 \<le> status resp \<and> status resp \<noteq> 401 \<and> status resp \<noteq> 404 \<and> status resp \<noteq> 422"
      "body_text resp = Inl err"
    with r show "fst (request W self ss meth endpoint params jsn) = except_client_error (Inl err)"
      by simp
  next
    fix resp j
    assume "out = Responds resp" "status resp < 400" "body_json resp = Inr j"
    with r show "fst (request W self ss meth endpoint params jsn) = Inr j"
      by simp
  next
    fix resp err
    assume "out = Responds resp" "status resp < 400" "body_json resp = Inl err"
    with r show "fst (request W self ss meth endpoint params jsn) = except_client_error (Inl err)"
      by simp
  next
    fix msg assume "out = Raises (ClientError msg)"
    with r show "fst (request W self ss meth endpoint params jsn) =
        Inl (GhostConnectionError (''Connection failed: '' @ msg))"
      by simp
  next
    fix err assume "out = Raises err \<and> (\<forall>msg. err \<noteq> ClientError msg)"
    with r show "fst (request W self ss meth endpoint params jsn) = Inl err"
      by (cases err) simp_all
  qed
qed

text \<open>The claim as first stated fails in each of its last four clauses: a 422 response
  whose body is not JSON raises the decoder's exception; a 500 response whose body is not
  valid in its charset raises \<open>UnicodeDecodeError\<close>; a 204 response without a JSON body
  raises instead of returning; and a timeout of the call is not wrapped.\<close>

theorem request_422_undecodable:
  "fst (request
         (example_world (Responds \<lparr> status = 422, body_text = Inr ''Unprocessable Entity'',
                                     body_json = Inl JSONDecodeError \<rparr>))
         example_client [] ''POST'' ''/ghost/api/admin/webhooks/'' None None)
     = Inl JSONDecodeError
   \<and> fst (request
         (example_world (Responds \<lparr> status = 500, body_text = Inl UnicodeDecodeError,
                                     body_json = Inl UnicodeDecodeError \<rparr>))
         example_client [] ''GET'' ''/ghost/api/admin/site/'' None None)
     = Inl UnicodeDecodeError
   \<and> fst (request
         (example_world (Responds \<lparr> status = 204, body_text = Inr [],
                                     body_json = Inl (ClientError ''unexpected mimetype'') \<rparr>))
         example_client [] ''DELETE'' ''/ghost/api/admin/posts/1/'' None None)
     = Inl (GhostConnectionError ''Connection failed: unexpected mimetype'')
   \<and> fst (request (example_world (Raises TimeoutError))
         example_client [] ''GET'' ''/ghost/api/admin/site/'' None None)
     = Inl TimeoutError"
  by (simp add: request_outcome[OF example_token example_server])

lemma str_int_503: "str_int 503 = ''503''"
  by code_simp

theorem request_status_classification_witness:
  "fst (request (example_world (Responds \<lparr> status = 401, body_text = Inr ''Unauthorized'', body_json = Inl JSONDecodeError \<rparr>))
          example_client [] ''GET'' ''/ghost/api/admin/site/'' None None)
     = Inl (GhostAuthError ''Authentication failed. Check your API key.'')
   \<and> fst (request (example_world (Responds \<lparr> status = 404, body_text = Inr ''Not Found'', body_json = Inl JSONDecodeError \<rparr>))
          example_client [] ''GET'' ''/ghost/api/admin/posts/1/'' None None)
     = Inl (GhostNotFoundError ''Resource not found: /ghost/api/admin/posts/1/'')
   \<and> (\<exists>m. fst (request (example_world (Responds \<lparr> status = 422, body_text = Inr [],
                   body_json = Inr (JDict [(''errors'', JList [JDict [(''message'', JStr ''Invalid target URL'')]])]) \<rparr>))
          example_client [] ''POST'' ''/ghost/api/admin/webhooks/'' None None)
     = Inl (GhostValidationError m))
   \<and> fst (request (example_world (Responds \<lparr> status = 503, body_text = Inr ''Service Unavailable'', body_json = Inl JSONDecodeError \<rparr>))
          example_client [] ''GET'' ''/ghost/api/admin/site/'' None None)
     = Inl (GhostError ''API error 503: Service Unavailable'')
   \<and> fst (request (example_world (Responds \<lparr> status = 200, body_text = Inr [],
                   body_json = Inr (JDict [(''site'', JDict [(''title'', JStr ''Test'')])]) \<rparr>))
          example_client [] ''GET'' ''/ghost/api/admin/site/'' None None)
     = Inr (JDict [(''site'', JDict [(''title'', JStr ''Test'')])])
   \<and> fst (request (example_world (Raises (ClientError ''Cannot connect to host'')))
          example_client [] ''GET'' ''/ghost/api/admin/site/'' None None)
     = Inl (GhostConnectionError ''Connection failed: Cannot connect to host'')"
  using request_status_classification[OF example_token example_server, of
          "Responds \<lparr> status = 401, body_text = Inr ''Unauthorized'', body_json = Inl JSONDecodeError \<rparr>"
          "[]" "''GET''" "''/ghost/api/admin/site/''" None None]
        request_status_classification[OF example_token example_server, of
          "Responds \<lparr> status = 404, body_text = Inr ''Not Found'', body_json = Inl JSONDecodeError \<rparr>"
          "[]" "''GET''" "''/ghost/api/admin/posts/1/''" None None]
        request_status_classification[OF example_token example_server, of
          "Responds \<lparr> status = 422, body_text = Inr [],
                   body_json = Inr (JDict [(''errors'', JList [JDict [(''message'', JStr ''Invalid target URL'')]])]) \<rparr>"
          "[]" "''POST''" "''/ghost/api/admin/webhooks/''" None None]
        request_status_classification[OF example_token example_server, of
          "Responds \<lparr> status = 503, body_text = Inr ''Service Unavailable'', body_json = Inl JSONDecodeError \<rparr>"
          "[]" "''GET''" "''/ghost/api/admin/site/''" None None]
        request_status_classification[OF example_token example_server, of
          "Responds \<lparr> status = 200, body_text = Inr [],
                   body_json = Inr (JDict [(''site'', JDict [(''title'', JStr ''Test'')])]) \<rparr>"
          "[]" "''GET''" "''/ghost/api/admin/site/''" None None]
        request_status_classification[OF example_token example_server, of
          "Raises (ClientError ''Cannot connect to host'')"
          "[]" "''GET''" "''/ghost/api/admin/site/''" None None]
  by (simp add: str_int_503)

text \<open>
  C2 (as amended). For a 422 response whose body decodes to an object: when \<open>errors\<close> is
  absent the request raises \<open>GhostValidationError\<close> with the default message
  \<open>Validation failed\<close>; when \<open>errors\<close> is a list starting with an object it raises
  \<open>GhostValidationError\<close> with that object's \<open>message\<close>, or the default message when
  the object has none. When the body does not decode, what the decoder raised leaves the
  branch (as \<open>GhostConnectionError\<close> when it is an \<open>aiohttp.ClientError\<close>).
\<close>

theorem request_422_message:
  assumes "generate_token W self = Inr token" and "\<And>rq. server W rq = Responds resp"
    and "status resp = 422"
  shows "(\<forall>kvs. body_json resp = Inr (JDict kvs) \<and> map_of kvs ''errors'' = None \<longrightarrow>
            fst (request W self ss meth endpoint params jsn) =
              Inl (GhostValidationError (JStr ''Validation failed'')))
       \<and> (\<forall>kvs d rest.
            body_json resp = Inr (JDict kvs) \<and> map_of kvs ''errors'' = Some (JList (JDict d # rest)) \<longrightarrow>
            fst (request W self ss meth endpoint params jsn) =
              Inl (GhostValidationError
                     (case map_of d ''message'' of None \<Rightarrow> JStr ''Validation failed'' | Some m \<Rightarrow> m)))
       \<and> (\<forall>err. body_json resp = Inl err \<longrightarrow>
            fst (request W self ss meth endpoint params jsn) = except_client_error (Inl err))"
  using request_outcome[OF assms(1,2), of ss meth endpoint params jsn] assms(3)
  by (auto simp: py_get_def py_index_def seq_index_def split: option.splits)

theorem request_422_message_witness:
  "fst (request (example_world (Responds \<lparr> status = 422, body_text = Inr ''{}'', body_json = Inr (JDict []) \<rparr>))
          example_client [] ''POST'' ''/ghost/api/admin/webhooks/'' None None)
     = Inl (GhostValidationError (JStr ''Validation failed''))
   \<and> fst (request (example_world (Responds \<lparr> status = 422, body_text = Inr [],
                   body_json = Inr (JDict [(''errors'', JList [JDict [(''message'', JStr ''Invalid target URL'')]])]) \<rparr>))
          example_client [] ''POST'' ''/ghost/api/admin/webhooks/'' None None)
     = Inl (GhostValidationError (JStr ''Invalid target URL''))
   \<and> fst (request (example_world (Responds \<lparr> status = 422, body_text = Inr [],
                   body_json = Inr (JDict [(''errors'', JList [JDict [(''type'', JStr ''ValidationError'')]])]) \<rparr>))
          example_client [] ''POST'' ''/ghost/api/admin/webhooks/'' None None)
     = Inl (GhostValidationError (JStr ''Validation failed''))"
  using request_422_message[OF example_token example_server, of
          "\<lparr> status = 422, body_text = Inr ''{}'', body_json = Inr (JDict []) \<rparr>"
          "[]" "''POST''" "''/ghost/api/admin/webhooks/''" None None]
        request_422_message[OF example_token example_server, of
          "\<lparr> status = 422, body_text = Inr [],
                   body_json = Inr (JDict [(''errors'', JList [JDict [(''message'', JStr ''Invalid target URL'')]])]) \<rparr>"
          "[]" "''POST''" "''/ghost/api/admin/webhooks/''" None None]
        request_422_message[OF example_token example_server, of
          "\<lparr> status = 422, body_text = Inr [],
                   body_json = Inr (JDict [(''errors'', JList [JDict [(''type'', JStr ''ValidationError'')]])]) \<rparr>"
          "[]" "''POST''" "''/ghost/api/admin/webhooks/''" None None]
  by simp

text \<open>The claim as first stated (the default message for every malformed body, nothing
  but \<open>GhostValidationError\<close> leaving the branch) fails on a body that is not JSON and on
  the body \<open>{"errors": []}\<close>.\<close>

theorem request_422_not_validation_error:
  "fst (request
         (example_world (Responds \<lparr> status = 422, body_text = Inr ''<html>Unprocessable Entity</html>'',
                                     body_json = Inl JSONDecodeError \<rparr>))
         example_client [] ''PUT'' ''/ghost/api/admin/posts/1/'' None None)
     = Inl JSONDecodeError
   \<and> fst (request
         (example_world (Responds \<lparr> status = 422, body_text = Inr errors_empty_text,
                                     body_json = Inr (JDict [(''errors'', JList [])]) \<rparr>))
         example_client [] ''PUT'' ''/ghost/api/admin/posts/1/'' None None)
     = Inl IndexError"
  using request_outcome[OF example_token example_server, of
      "Responds \<lparr> status = 422, body_text = Inr ''<html>Unprocessable Entity</html>'', body_json = Inl JSONDecodeError \<rparr>"
      "[]" "''PUT''" "''/ghost/api/admin/posts/1/''" None None]
    request_outcome[OF example_token example_server, of
      "Responds \<lparr> status = 422, body_text = Inr errors_empty_text, body_json = Inr (JDict [(''errors'', JList [])]) \<rparr>"
      "[]" "''PUT''" "''/ghost/api/admin/posts/1/''" None None]
  by (simp add: py_get_def py_index_def seq_index_def)

section \<open>Post methods and the not-found error\<close>

lemma fst_case_triple: "fst (case p of (r, a, b) \<Rightarrow> (g r, a, b)) = g (fst p)"
  by (cases p) auto









section \<open>Webhooks\<close>

lemma create_webhook_result:
  "fst (create_webhook W self ss event target_url) =
     then_do (fst (request W self ss ''POST'' ''/ghost/api/admin/webhooks/'' None
                (Some (JDict [(''webhooks'',
                   JList [JDict [(''event'', JStr event), (''target_url'', JStr target_url)]])]))))
       (\<lambda>data. then_do (py_get data ''webhooks'' (JList [JDict []])) (\<lambda>webhooks. py_index webhooks 0))"
  unfolding create_webhook_def post_def by (rule fst_case_triple)

text \<open>
  C10. For a response with a status below 400 whose body decodes to an object:
  when \<open>webhooks\<close> is an empty list \<open>create_webhook\<close> raises \<open>IndexError\<close>, which is
  none of the client's own errors; when the key \<open>webhooks\<close> is absent the default list
  of one empty record applies and the empty dictionary is returned.
\<close>

theorem create_webhook_empty_list:
  assumes "generate_token W self = Inr token" and "\<And>rq. server W rq = Responds resp"
    and "status resp < 400" and "body_json resp = Inr (JDict kvs)"
  shows "(map_of kvs ''webhooks'' = Some (JList []) \<longrightarrow>
            fst (create_webhook W self ss event target_url) = Inl IndexError)
       \<and> (map_of kvs ''webhooks'' = None \<longrightarrow>
            fst (create_webhook W self ss event target_url) = Inr (JDict []))"
  using assms(3,4)
  by (simp add: create_webhook_result request_outcome[OF assms(1,2)] py_get_def py_index_def
      seq_index_def)

theorem create_webhook_empty_list_witness:
  "fst (create_webhook
          (example_world (Responds \<lparr> status = 201, body_text = Inr [],
                                      body_json = Inr (JDict [(''webhooks'', JList [])]) \<rparr>))
          example_client [] ''member.added'' ''https://example.com/hook'') = Inl IndexError
   \<and> fst (create_webhook
          (example_world (Responds \<lparr> status = 201, body_text = Inr ''{}'', body_json = Inr (JDict []) \<rparr>))
          example_client [] ''member.added'' ''https://example.com/hook'') = Inr (JDict [])"
  using create_webhook_empty_list[OF example_token example_server, of
          "\<lparr> status = 201, body_text = Inr [], body_json = Inr (JDict [(''webhooks'', JList [])]) \<rparr>"
          "[(''webhooks'', JList [])]" "[]" "''member.added''" "''https://example.com/hook''"]
        create_webhook_empty_list[OF example_token example_server, of
          "\<lparr> status = 201, body_text = Inr ''{}'', body_json = Inr (JDict []) \<rparr>"
          "[]" "[]" "''member.added''" "''https://example.com/hook''"]
  by simp

section \<open>ActivityPub statistics\<close>

lemma fetch_count_eq:
  "fetch_count W self headers stats endpoint key =
     (case server W \<lparr> req_method = ''GET'',
                       req_url = api_url self @ ''/.ghost/activitypub/'' @ endpoint @ ''/index'',
                       req_headers = headers, req_params = None, req_json = None \<rparr> of
        Raises err \<Rightarrow> stats
      | Responds resp \<Rightarrow>
          (if ok resp
           then (case body_json resp of
                   Inl err \<Rightarrow> stats
                 | Inr data \<Rightarrow>
                     (case data of
                        JDict kvs \<Rightarrow>
                          AList.update key
                            (case map_of kvs ''totalItems'' of None \<Rightarrow> JInt 0 | Some n \<Rightarrow> n) stats
                      | _ \<Rightarrow> stats))
           else stats))"
  by (simp add: fetch_count_def py_get_def
      split: http_outcome.splits sum.splits json.splits option.splits)

text \<open>
  C8. \<open>get_activitypub_stats\<close> always returns the dictionary with the keys
  \<open>followers\<close> and \<open>following\<close>, whatever the remote side does. The count of a key
  is 0 when that key's exchange raises, answers with a status from 400, or has a body that
  does not decode; it is the body's \<open>totalItems\<close> when that exchange succeeds, whatever
  happened to the other one. The order in which the two fetches run does not matter.
\<close>

theorem activitypub_stats_never_raises:
  "\<exists>a b. fst (get_activitypub_stats W self ss) = Inr [(''followers'', a), (''following'', b)]
     \<and> (\<forall>err. server W \<lparr> req_method = ''GET'',
                    req_url = api_url self @ ''/.ghost/activitypub/followers/index'',
                    req_headers = [(''Accept'', ''application/activity+json'')],
                    req_params = None, req_json = None \<rparr> = Raises err \<longrightarrow> a = JInt 0)
     \<and> (\<forall>resp. server W \<lparr> req_method = ''GET'',
                    req_url = api_url self @ ''/.ghost/activitypub/followers/index'',
                    req_headers = [(''Accept'', ''application/activity+json'')],
                    req_params = None, req_json = None \<rparr> = Responds resp
            \<and> (400 \<le> status resp \<or> (\<exists>err. body_json resp = Inl err)) \<longrightarrow> a = JInt 0)
     \<and> (\<forall>resp kvs n. server W \<lparr> req_method = ''GET'',
                    req_url = api_url self @ ''/.ghost/activitypub/followers/index'',
                    req_headers = [(''Accept'', ''application/activity+json'')],
                    req_params = None, req_json = None \<rparr> = Responds resp
            \<and> status resp < 400 \<and> body_json resp = Inr (JDict kvs)
            \<and> map_of kvs ''totalItems'' = Some n \<longrightarrow> a = n)
     \<and> (\<forall>err. server W \<lparr> req_method = ''GET'',
                    req_url = api_url self @ ''/.ghost/activitypub/following/index'',
                    req_headers = [(''Accept'', ''application/activity+json'')],
                    req_params = None, req_json = None \<rparr> = Raises err \<longrightarrow> b = JInt 0)
     \<and> (\<forall>resp. server W \<lparr> req_method = ''GET'',
                    req_url = api_url self @ ''/.ghost/activitypub/following/index'',
                    req_headers = [(''Accept'', ''application/activity+json'')],
                    req_params = None, req_json = None \<rparr> = Responds resp
            \<and> (400 \<le> status resp \<or> (\<exists>err. body_json resp = Inl err)) \<longrightarrow> b = JInt 0)
     \<and> (\<forall>resp kvs n. server W \<lparr> req_method = ''GET'',
                    req_url = api_url self @ ''/.ghost/activitypub/following/index'',
                    req_headers = [(''Accept'', ''application/activity+json'')],
                    req_params = None, req_json = None \<rparr> = Responds resp
            \<and> status resp < 400 \<and> body_json resp = Inr (JDict kvs)
            \<and> map_of kvs ''totalItems'' = Some n \<longrightarrow> b = n)"
proof -
  obtain t self1 ss1 where g: "get_session self ss = (t, self1, ss1)"
    by (cases "get_session self ss") auto
  then have u: "api_url self1 = api_url self"
    using get_session_fields by blast
  let ?F = "server W \<lparr> req_method = ''GET'',
                    req_url = api_url self @ ''/.ghost/activitypub/followers/index'',
                    req_headers = [(''Accept'', ''application/activity+json'')],
                    req_params = None, req_json = None \<rparr>"
  let ?G = "server W \<lparr> req_method = ''GET'',
                    req_url = api_url self @ ''/.ghost/activitypub/following/index'',
                    req_headers = [(''Accept'', ''application/activity+json'')],
                    req_params = None, req_json = None \<rparr>"
  define cnt where "cnt = (\<lambda>out.
     case out of
       Raises err \<Rightarrow> JInt 0
     | Responds resp \<Rightarrow>
         (if ok resp
          then (case body_json resp of
                  Inl err \<Rightarrow> JInt 0
                | Inr data \<Rightarrow>
                    (case data of
                       JDict kvs \<Rightarrow> (case map_of kvs ''totalItems'' of None \<Rightarrow> JInt 0 | Some n \<Rightarrow> n)
                     | _ \<Rightarrow> JInt 0))
          else JInt 0))"
  have f1: "fetch_count W self1 [(''Accept'', ''application/activity+json'')]
              [(''followers'', JInt 0), (''following'', JInt 0)] ''followers'' ''followers''
            = [(''followers'', cnt ?F), (''following'', JInt 0)]"
    by (simp add: fetch_count_eq u cnt_def
        split: http_outcome.splits sum.splits json.splits option.splits)
  have f2: "fetch_count W self1 [(''Accept'', ''application/activity+json'')]
              [(''followers'', cnt ?F), (''following'', JInt 0)] ''following'' ''following''
            = [(''followers'', cnt ?F), (''following'', cnt ?G)]"
    by (simp add: fetch_count_eq u cnt_def
        split: http_outcome.splits sum.splits json.splits option.splits)
  have r: "fst (get_activitypub_stats W self ss) = Inr [(''followers'', cnt ?F), (''following'', cnt ?G)]"
    by (simp add: get_activitypub_stats_def g f1 f2 Let_def)
  have c1: "\<And>out err. out = Raises err \<Longrightarrow> cnt out = JInt 0"
    by (simp add: cnt_def)
  have c2: "\<And>out resp. out = Responds resp \<Longrightarrow>
              400 \<le> status resp \<or> (\<exists>err. body_json resp = Inl err) \<Longrightarrow> cnt out = JInt 0"
    by (auto simp: cnt_def ok_def)
  have c3: "\<And>out resp kvs n. out = Responds resp \<Longrightarrow> status resp < 400 \<Longrightarrow>
              body_json resp = Inr (JDict kvs) \<Longrightarrow> map_of kvs ''totalItems'' = Some n \<Longrightarrow> cnt out = n"
    by (simp add: cnt_def ok_def)
  show ?thesis
    apply (rule exI[of _ "cnt ?F"])
    apply (rule exI[of _ "cnt ?G"])
    using r c1[of ?F] c2[of ?F] c3[of ?F] c1[of ?G] c2[of ?G] c3[of ?G]
    by blast
qed


lemma fetch_count_cases:
  "(\<forall>stats. fetch_count W self headers stats endpoint key = stats)
   \<or> (\<exists>n. \<forall>stats. fetch_count W self headers stats endpoint key = AList.update key n stats)"
proof (cases "server W \<lparr> req_method = ''GET'',
                       req_url = api_url self @ ''/.ghost/activitypub/'' @ endpoint @ ''/index'',
                       req_headers = headers, req_params = None, req_json = None \<rparr>")
  case (Raises err)
  then show ?thesis by (simp add: fetch_count_eq)
next
  case (Responds resp)
  show ?thesis
  proof (cases "ok resp")
    case False
    with Responds show ?thesis by (simp add: fetch_count_eq)
  next
    case True
    show ?thesis
    proof (cases "body_json resp")
      case (Inl err)
      with Responds True show ?thesis by (simp add: fetch_count_eq)
    next
      case (Inr data)
      with Responds True show ?thesis
        by (cases data) (simp_all add: fetch_count_eq, blast)
    qed
  qed
qed

lemma fetch_count_order:
  "fetch_count W self headers
     (fetch_count W self headers [(''followers'', JInt 0), (''following'', JInt 0)] ''followers'' ''followers'')
     ''following'' ''following''
   = fetch_count W self headers
     (fetch_count W self headers [(''followers'', JInt 0), (''following'', JInt 0)] ''following'' ''following'')
     ''followers'' ''followers''"
  using fetch_count_cases[of W self headers "''followers''" "''followers''"]
        fetch_count_cases[of W self headers "''following''" "''following''"]
  by (elim disjE exE) simp_all

theorem activitypub_stats_never_raises_witness:
  "fst (get_activitypub_stats
          (example_world (Responds \<lparr> status = 404, body_text = Inr ''Not Found'', body_json = Inl JSONDecodeError \<rparr>))
          example_client [])
     = Inr [(''followers'', JInt 0), (''following'', JInt 0)]
   \<and> fst (get_activitypub_stats (example_world (Raises (ClientError ''Cannot connect to host'')))
          example_client [])
     = Inr [(''followers'', JInt 0), (''following'', JInt 0)]
   \<and> fst (get_activitypub_stats
          (example_world_by_url (\<lambda>url.
             if url = ''https://test.ghost.io/.ghost/activitypub/followers/index''
             then Raises (ClientError ''Cannot connect to host'')
             else Responds \<lparr> status = 200, body_text = Inr [],
                             body_json = Inr (JDict [(''totalItems'', JInt 7)]) \<rparr>))
          example_client [])
     = Inr [(''followers'', JInt 0), (''following'', JInt 7)]"
  using activitypub_stats_never_raises[of
          "example_world (Responds \<lparr> status = 404, body_text = Inr ''Not Found'', body_json = Inl JSONDecodeError \<rparr>)"
          example_client "[]"]
        activitypub_stats_never_raises[of
          "example_world (Raises (ClientError ''Cannot connect to host''))" example_client "[]"]
        activitypub_stats_never_raises[of
          "example_world_by_url (\<lambda>url.
             if url = ''https://test.ghost.io/.ghost/activitypub/followers/index''
             then Raises (ClientError ''Cannot connect to host'')
             else Responds \<lparr> status = 200, body_text = Inr [],
                             body_json = Inr (JDict [(''totalItems'', JInt 7)]) \<rparr>)"
          example_client "[]"]
  by (auto simp: example_world_def example_world_by_url_def example_client_def)

section \<open>Monthly recurring revenue\<close>

lemma then_do_Inr: "then_do r f = Inr y \<longleftrightarrow> (\<exists>x. r = Inr x \<and> f x = Inr y)"
  by (cases r) auto

lemma key_eq_refl: "key_eq k k"
  by (simp add: key_eq_def)

lemma key_eq_trans_iff: "key_eq a b \<Longrightarrow> key_eq a c = key_eq b c"
  by (simp add: key_eq_def)

lemma dict_lookup_update:
  "dict_lookup (dict_update d k v) k' = (if key_eq k k' then Some v else dict_lookup d k')"
  by (induction d) (auto simp: key_eq_def)

lemma py_index_last: "xs \<noteq> [] \<Longrightarrow> py_index (JList xs) (- 1) = Inr (last xs)"
  by (cases xs rule: rev_cases) (auto simp: py_index_def seq_index_def nth_append)

lemma mrr_loop_skip:
  "mrr_loop items r = Inr r' \<Longrightarrow>
   (\<forall>e\<in>set items. \<forall>c vals. py_get e ''currency'' (JStr ''usd'') = Inr c \<and> key_eq c k
        \<and> py_get e ''data'' (JList []) = Inr vals \<longrightarrow> \<not> truthy vals) \<Longrightarrow>
   dict_lookup r' k = dict_lookup r k"
proof (induction items arbitrary: r)
  case Nil
  then show ?case by simp
next
  case (Cons e rest)
  from Cons.prems(1) obtain c vals where
    c: "py_get e ''currency'' (JStr ''usd'') = Inr c" and
    d: "py_get e ''data'' (JList []) = Inr vals"
    by (auto simp: then_do_Inr)
  from Cons.prems(2) have rest: "\<forall>e\<in>set rest. \<forall>c vals. py_get e ''currency'' (JStr ''usd'') = Inr c \<and> key_eq c k
        \<and> py_get e ''data'' (JList []) = Inr vals \<longrightarrow> \<not> truthy vals"
    by (blast intro: list.set_intros)
  show ?case
  proof (cases "truthy vals")
    case False
    with Cons.prems(1) c d have "mrr_loop rest r = Inr r'" by simp
    from Cons.IH[OF this rest] show ?thesis .
  next
    case True
    with Cons.prems(2) c d have nk: "\<not> key_eq c k" by auto
    from True Cons.prems(1) c d obtain v where
      l: "mrr_loop rest (dict_update r c v) = Inr r'"
      by (auto simp: then_do_Inr dict_setitem_def split: if_splits)
    from Cons.IH[OF l rest] nk show ?thesis by (simp add: dict_lookup_update)
  qed
qed

lemma mrr_loop_append:
  "mrr_loop (pre @ rest) r = Inr r' \<Longrightarrow> \<exists>r1. mrr_loop pre r = Inr r1 \<and> mrr_loop rest r1 = Inr r'"
proof (induction pre arbitrary: r)
  case Nil
  then show ?case by simp
next
  case (Cons e pre)
  from Cons.prems obtain c vals where
    c: "py_get e ''currency'' (JStr ''usd'') = Inr c" and
    d: "py_get e ''data'' (JList []) = Inr vals"
    by (auto simp: then_do_Inr)
  show ?case
  proof (cases "truthy vals")
    case False
    with Cons.prems c d have "mrr_loop (pre @ rest) r = Inr r'" by simp
    from Cons.IH[OF this] False c d show ?thesis by simp
  next
    case True
    with Cons.prems c d obtain latest v r0 where
      s: "py_index vals (- 1) = Inr latest" "py_get latest ''value'' (JInt 0) = Inr v"
         "dict_setitem r c v = Inr r0" "mrr_loop (pre @ rest) r0 = Inr r'"
      by (auto simp: then_do_Inr)
    from Cons.IH[OF s(4)] True c d s(1,2,3) show ?thesis by simp
  qed
qed

lemma mrr_loop_hit:
  assumes "mrr_loop (e # later) r = Inr r'"
    and "py_get e ''currency'' (JStr ''usd'') = Inr c"
    and "py_get e ''data'' (JList []) = Inr (JList xs)" and "xs \<noteq> []"
    and "py_get (last xs) ''value'' (JInt 0) = Inr v"
    and "\<forall>e'\<in>set later. \<forall>c' vals. py_get e' ''currency'' (JStr ''usd'') = Inr c' \<and> key_eq c' c
        \<and> py_get e' ''data'' (JList []) = Inr vals \<longrightarrow> \<not> truthy vals"
  shows "dict_lookup r' c = Some v"
proof -
  from assms(1-5) have l: "mrr_loop later (dict_update r c v) = Inr r'"
    by (auto simp: then_do_Inr truthy_def py_index_last dict_setitem_def split: if_splits)
  from mrr_loop_skip[OF l assms(6)] show ?thesis
    by (simp add: dict_lookup_update key_eq_refl)
qed

lemma mrr_loop_total:
  "\<forall>e\<in>set items. mrr_entry_ok e \<Longrightarrow> \<exists>r'. mrr_loop items r = Inr r'"
proof (induction items arbitrary: r)
  case Nil
  then show ?case by simp
next
  case (Cons e rest)
  then have ok: "mrr_entry_ok e" and rest: "\<forall>e\<in>set rest. mrr_entry_ok e" by simp_all
  from ok obtain kvs where e: "e = JDict kvs"
    by (cases e) (simp_all add: mrr_entry_ok_def)
  show ?case
  proof (cases "map_of kvs ''data''")
    case None
    with e Cons.IH[OF rest, of r] show ?thesis
      by (simp add: py_get_def truthy_def split: option.splits)
  next
    case (Some vals)
    show ?thesis
    proof (cases "truthy vals")
      case False
      with e Some Cons.IH[OF rest, of r] show ?thesis
        by (simp add: py_get_def split: option.splits)
    next
      case True
      with ok e Some obtain xs d where v: "vals = JList xs" "xs \<noteq> []" "last xs = JDict d"
        by (auto simp: mrr_entry_ok_def truthy_def split: json.splits)
      from ok e have h: "hashable (case map_of kvs ''currency'' of None \<Rightarrow> JStr ''usd'' | Some c \<Rightarrow> c)"
        by (simp add: mrr_entry_ok_def)
      obtain c where c: "py_get e ''currency'' (JStr ''usd'') = Inr c" "hashable c"
        using e h by (auto simp: py_get_def split: option.splits)
      obtain w where w: "py_get (last xs) ''value'' (JInt 0) = Inr w"
        using v(3) by (cases "map_of d ''value''") (auto simp: py_get_def)
      from Cons.IH[OF rest, of "dict_update r c w"] obtain r' where
        "mrr_loop rest (dict_update r c w) = Inr r'" by blast
      with e Some v c w True show ?thesis
        by (simp add: py_get_def py_index_last dict_setitem_def split: option.splits)
    qed
  qed
qed


lemma get_mrr_result:
  "fst (get_mrr W self ss) =
     then_do (fst (request W self ss ''GET'' ''/ghost/api/admin/members/stats/mrr/'' None None))
       (\<lambda>data. then_do (py_get data ''data'' (JList [])) (\<lambda>series.
                then_do (py_iter series) (\<lambda>items. mrr_loop items [])))"
  unfolding get_mrr_def get_def by (rule fst_case_triple)

text \<open>
  C9. Let the MRR response decode to an object whose \<open>data\<close> is a list of entries.
  If every entry has the shape \<open>mrr_entry_ok\<close>, \<open>get_mrr\<close> returns a dictionary.
  Whenever it returns one: a currency is mapped to the \<open>value\<close> field (0 when the field is absent) of the last
  element of its series, taken from the last entry of that currency whose series is not
  empty; and a currency all of whose entries have an empty series is not a key of the
  result.
\<close>

theorem get_mrr_last_element:
  assumes "fst (request W self ss ''GET'' ''/ghost/api/admin/members/stats/mrr/'' None None) = Inr data"
    and "py_get data ''data'' (JList []) = Inr (JList items)"
  shows "((\<forall>e\<in>set items. mrr_entry_ok e) \<longrightarrow> (\<exists>result. fst (get_mrr W self ss) = Inr result))
       \<and> (\<forall>result. fst (get_mrr W self ss) = Inr result \<longrightarrow>
            (\<forall>earlier e later c xs v.
               items = earlier @ e # later
               \<and> py_get e ''currency'' (JStr ''usd'') = Inr c
               \<and> py_get e ''data'' (JList []) = Inr (JList xs) \<and> xs \<noteq> []
               \<and> py_get (last xs) ''value'' (JInt 0) = Inr v
               \<and> (\<forall>e'\<in>set later. \<forall>c' vals.
                      py_get e' ''currency'' (JStr ''usd'') = Inr c' \<and> key_eq c' c
                      \<and> py_get e' ''data'' (JList []) = Inr vals \<longrightarrow> \<not> truthy vals)
               \<longrightarrow> dict_lookup result c = Some v)
          \<and> (\<forall>k. (\<forall>e\<in>set items. \<forall>c vals.
                      py_get e ''currency'' (JStr ''usd'') = Inr c \<and> key_eq c k
                      \<and> py_get e ''data'' (JList []) = Inr vals \<longrightarrow> \<not> truthy vals)
               \<longrightarrow> dict_lookup result k = None))"
proof -
  have r: "fst (get_mrr W self ss) = mrr_loop items []"
    by (simp add: get_mrr_result assms py_iter_def)
  show ?thesis
  proof (intro conjI allI impI)
    assume "\<forall>e\<in>set items. mrr_entry_ok e"
    from mrr_loop_total[OF this, of "[]"] r
    show "\<exists>result. fst (get_mrr W self ss) = Inr result" by simp
  next
    fix result earlier e later c xs v
    assume res: "fst (get_mrr W self ss) = Inr result"
      and h: "items = earlier @ e # later
               \<and> py_get e ''currency'' (JStr ''usd'') = Inr c
               \<and> py_get e ''data'' (JList []) = Inr (JList xs) \<and> xs \<noteq> []
               \<and> py_get (last xs) ''value'' (JInt 0) = Inr v
               \<and> (\<forall>e'\<in>set later. \<forall>c' vals.
                      py_get e' ''currency'' (JStr ''usd'') = Inr c' \<and> key_eq c' c
                      \<and> py_get e' ''data'' (JList []) = Inr vals \<longrightarrow> \<not> truthy vals)"
    from res r h have "mrr_loop (earlier @ e # later) [] = Inr result" by simp
    from mrr_loop_append[OF this] obtain r1 where
      "mrr_loop (e # later) r1 = Inr result" by blast
    from mrr_loop_hit[OF this] h show "dict_lookup result c = Some v" by blast
  next
    fix result k
    assume res: "fst (get_mrr W self ss) = Inr result"
      and h: "\<forall>e\<in>set items. \<forall>c vals.
                      py_get e ''currency'' (JStr ''usd'') = Inr c \<and> key_eq c k
                      \<and> py_get e ''data'' (JList []) = Inr vals \<longrightarrow> \<not> truthy vals"
    from res r have "mrr_loop items [] = Inr result" by simp
    from mrr_loop_skip[OF this h] show "dict_lookup result k = None" by simp
  qed
qed

theorem get_mrr_last_element_witness:
  "fst (get_mrr
          (example_world (Responds \<lparr> status = 200, body_text = Inr [],
             body_json = Inr (JDict [(''data'',
               JList [JDict [(''currency'', JStr ''usd''),
                             (''data'', JList [JDict [(''value'', JInt 10000)],
                                               JDict [(''value'', JInt 12284)]])],
                      JDict [(''currency'', JStr ''eur''), (''data'', JList [])]])]) \<rparr>))
          example_client [])
     = Inr [(JStr ''usd'', JInt 12284)]
   \<and> dict_lookup [(JStr ''usd'', JInt 12284)] (JStr ''usd'') = Some (JInt 12284)
   \<and> dict_lookup [(JStr ''usd'', JInt 12284)] (JStr ''eur'') = None"
  using get_mrr_last_element[where
          W = "example_world (Responds \<lparr> status = 200, body_text = Inr [],
             body_json = Inr (JDict [(''data'',
               JList [JDict [(''currency'', JStr ''usd''),
                             (''data'', JList [JDict [(''value'', JInt 10000)],
                                               JDict [(''value'', JInt 12284)]])],
                      JDict [(''currency'', JStr ''eur''), (''data'', JList [])]])]) \<rparr>)"
          and self = example_client and ss = "[]"
          and data = "JDict [(''data'',
               JList [JDict [(''currency'', JStr ''usd''),
                             (''data'', JList [JDict [(''value'', JInt 10000)],
                                               JDict [(''value'', JInt 12284)]])],
                      JDict [(''currency'', JStr ''eur''), (''data'', JList [])]])]"
          and items = "[JDict [(''currency'', JStr ''usd''),
                             (''data'', JList [JDict [(''value'', JInt 10000)],
                                               JDict [(''value'', JInt 12284)]])],
                      JDict [(''currency'', JStr ''eur''), (''data'', JList [])]]"]
  by (simp add: get_mrr_result request_outcome[OF example_token example_server] py_get_def
      py_iter_def py_index_def seq_index_def truthy_def dict_setitem_def hashable_def key_eq_def
      key_norm_def)

end
